theory Spec2Isabelle
  imports Complex_Main "HOL-Library.AList" "HOL-Library.Sublist"
begin

section \<open>The function executor of the workflow engine\<close>

text \<open>
  A shallow embedding of \<^verbatim>\<open>lib/execution/function-executor.ts\<close>: the three variable
  resolution passes, the import check, the script wrapper and \<^verbatim>\<open>executeFunction\<close>
  with its error handler.

  Conventions of the model.
  \<^item> A JavaScript string is a \<open>string\<close>; each \<open>char\<close> stands for one UTF-16 code unit
    below 256 (the Latin-1 range). The regular expressions of the source carry no
    \<^verbatim>\<open>u\<close> flag, so they work on code units.
  \<^item> A JavaScript value is a finite tree \<open>jsval\<close>. An object is its kind and the
    association list of its own properties in property order; what a read finds further
    up the prototype chain is a function of the host.
  \<^item> A \<^verbatim>\<open>throw\<close> is the left injection of a sum; the thrown value is any \<open>jsval\<close>.
  \<^item> What the source takes from its runtime (the \<^verbatim>\<open>vm\<close> module, \<^verbatim>\<open>Number\<close>,
    \<^verbatim>\<open>JSON\<close>, the clock, the environment) is the record \<open>host\<close>. Logging has no
    effect on any result and is left out.
\<close>

subsection \<open>Character classes\<close>

definition charBetween :: "char \<Rightarrow> char \<Rightarrow> char \<Rightarrow> bool" where
  "charBetween lo hi c = ((of_char lo :: nat) \<le> of_char c \<and> (of_char c :: nat) \<le> of_char hi)"

text \<open>\<^verbatim>\<open>[a-zA-Z0-9_]\<close>\<close>

definition isWordChar :: "char \<Rightarrow> bool" where
  "isWordChar c = (charBetween CHR ''a'' CHR ''z'' c \<or> charBetween CHR ''A'' CHR ''Z'' c
     \<or> charBetween CHR ''0'' CHR ''9'' c \<or> c = CHR ''_'')"

text \<open>\<^verbatim>\<open>[a-zA-Z_]\<close>\<close>

definition isTagStart :: "char \<Rightarrow> bool" where
  "isTagStart c = (charBetween CHR ''a'' CHR ''z'' c \<or> charBetween CHR ''A'' CHR ''Z'' c
     \<or> c = CHR ''_'')"

text \<open>\<^verbatim>\<open>[a-zA-Z0-9_.]\<close>\<close>

definition isTagChar :: "char \<Rightarrow> bool" where
  "isTagChar c = (isWordChar c \<or> c = CHR ''.'')"

text \<open>
  \<^verbatim>\<open>\s\<close>, which is also what \<^verbatim>\<open>trim\<close> strips: tab, line feed, vertical tab, form
  feed, carriage return, space and no-break space are the white space and line
  terminators below 256.
\<close>

definition isSpace :: "char \<Rightarrow> bool" where
  "isSpace c = (c \<in> set [CHR 0x09, CHR 0x0A, CHR 0x0B, CHR 0x0C, CHR 0x0D, CHR 0x20, CHR 0xA0])"

definition isLineTerminator :: "char \<Rightarrow> bool" where
  "isLineTerminator c = (c = CHR 0x0A \<or> c = CHR 0x0D)"

text \<open>\<^verbatim>\<open>['"`]\<close>\<close>

definition isQuote :: "char \<Rightarrow> bool" where
  "isQuote c = (c = CHR 0x27 \<or> c = CHR 0x22 \<or> c = CHR 0x60)"

text \<open>The syntax characters of \<^verbatim>\<open>/[.*+?^${}()|[\]\\]/\<close>.\<close>

definition isRegExpSpecial :: "char \<Rightarrow> bool" where
  "isRegExpSpecial c = (c \<in> set [CHR ''.'', CHR ''*'', CHR ''+'', CHR ''?'', CHR ''^'', CHR ''$'',
     CHR ''{'', CHR ''}'', CHR ''('', CHR '')'', CHR ''|'', CHR ''['', CHR '']'', CHR 0x5C])"

subsection \<open>String methods\<close>

text \<open>\<^verbatim>\<open>s.trim()\<close>\<close>

definition trim :: "string \<Rightarrow> string" where
  "trim s = rev (dropWhile isSpace (rev (dropWhile isSpace s)))"

text \<open>\<^verbatim>\<open>s.slice(a, -b)\<close> for \<open>a, b \<ge> 0\<close>: from index \<open>a\<close> up to \<open>b\<close> before the end.\<close>

definition slice :: "nat \<Rightarrow> nat \<Rightarrow> string \<Rightarrow> string" where
  "slice a b s = drop a (take (length s - b) s)"

text \<open>\<^verbatim>\<open>s.split(sep)\<close> for a one-character separator: always at least one segment.\<close>

fun split :: "char \<Rightarrow> string \<Rightarrow> string list" where
  "split sep [] = [[]]"
| "split sep (c # cs) =
     (if c = sep then [] # split sep cs
      else (case split sep cs of [] \<Rightarrow> [[c]] | seg # segs \<Rightarrow> (c # seg) # segs))"

text \<open>\<^verbatim>\<open>segs.join(sep)\<close> on an array of strings.\<close>

fun join :: "string \<Rightarrow> string list \<Rightarrow> string" where
  "join sep [] = []"
| "join sep [s] = s"
| "join sep (s # t # ss) = s @ sep @ join sep (t # ss)"

text \<open>
  \<^verbatim>\<open>s.toLowerCase()\<close> on code units below 256: the ASCII capitals and the Latin-1
  capitals \<open>0xC0\<close> to \<open>0xDE\<close> (without the multiplication sign \<open>0xD7\<close>) move up by 32.
\<close>

definition upperChars :: "char list" where
  "upperChars = ''ABCDEFGHIJKLMNOPQRSTUVWXYZ'' @
     [CHR 0xC0, CHR 0xC1, CHR 0xC2, CHR 0xC3, CHR 0xC4, CHR 0xC5, CHR 0xC6, CHR 0xC7,
      CHR 0xC8, CHR 0xC9, CHR 0xCA, CHR 0xCB, CHR 0xCC, CHR 0xCD, CHR 0xCE, CHR 0xCF,
      CHR 0xD0, CHR 0xD1, CHR 0xD2, CHR 0xD3, CHR 0xD4, CHR 0xD5, CHR 0xD6,
      CHR 0xD8, CHR 0xD9, CHR 0xDA, CHR 0xDB, CHR 0xDC, CHR 0xDD, CHR 0xDE]"

definition lowerChars :: "char list" where
  "lowerChars = ''abcdefghijklmnopqrstuvwxyz'' @
     [CHR 0xE0, CHR 0xE1, CHR 0xE2, CHR 0xE3, CHR 0xE4, CHR 0xE5, CHR 0xE6, CHR 0xE7,
      CHR 0xE8, CHR 0xE9, CHR 0xEA, CHR 0xEB, CHR 0xEC, CHR 0xED, CHR 0xEE, CHR 0xEF,
      CHR 0xF0, CHR 0xF1, CHR 0xF2, CHR 0xF3, CHR 0xF4, CHR 0xF5, CHR 0xF6,
      CHR 0xF8, CHR 0xF9, CHR 0xFA, CHR 0xFB, CHR 0xFC, CHR 0xFD, CHR 0xFE]"

definition toLowerCase :: "string \<Rightarrow> string" where
  "toLowerCase s =
     map (\<lambda>c. case map_of (zip upperChars lowerChars) c of Some d \<Rightarrow> d | None \<Rightarrow> c) s"

text \<open>\<^verbatim>\<open>s.endsWith('\n')\<close> and \<^verbatim>\<open>s.includes('.')\<close>\<close>

definition endsWith :: "string \<Rightarrow> string \<Rightarrow> bool" where
  "endsWith s t = (length t \<le> length s \<and> drop (length s - length t) s = t)"

definition includesChar :: "string \<Rightarrow> char \<Rightarrow> bool" where
  "includesChar s c = (c \<in> set s)"

subsection \<open>Regular expressions\<close>

text \<open>
  The regular expressions of the source are sequences of character classes, each taken
  once, zero or more times (\<^verbatim>\<open>*\<close>) or one or more times (\<^verbatim>\<open>+\<close>), and the
  assertion \<^verbatim>\<open>^\<close> under the \<^verbatim>\<open>m\<close> flag. \<open>rxMatch r prev s\<close> is the backtracking
  matcher at one position: \<open>prev\<close> is the code unit before the position (\<open>None\<close> at the
  start of the input), \<open>s\<close> the input from the position on, and the result the length
  of the match the engine finds there. The quantifiers are greedy: one more character
  is tried first, the rest of the pattern at the current position only when that fails.
\<close>

datatype atom =
    One "char \<Rightarrow> bool"
  | Star "char \<Rightarrow> bool"
  | Plus "char \<Rightarrow> bool"
  | LineStart

fun rxMatch :: "atom list \<Rightarrow> char option \<Rightarrow> string \<Rightarrow> nat option" where
  "rxMatch [] prev s = Some 0"
| "rxMatch (One P # r) prev [] = None"
| "rxMatch (One P # r) prev (c # cs) =
     (if P c then map_option Suc (rxMatch r (Some c) cs) else None)"
| "rxMatch (Plus P # r) prev [] = None"
| "rxMatch (Plus P # r) prev (c # cs) =
     (if P c then map_option Suc (rxMatch (Star P # r) (Some c) cs) else None)"
| "rxMatch (Star P # r) prev [] = rxMatch r prev []"
| "rxMatch (Star P # r) prev (c # cs) =
     (if P c then
        (case rxMatch (Star P # r) (Some c) cs of
           Some n \<Rightarrow> Some (Suc n)
         | None \<Rightarrow> rxMatch r prev (c # cs))
      else rxMatch r prev (c # cs))"
| "rxMatch (LineStart # r) prev s =
     (case prev of
        None \<Rightarrow> rxMatch r prev s
      | Some p \<Rightarrow> if isLineTerminator p then rxMatch r prev s else None)"

text \<open>A run of characters, each matching itself.\<close>

definition lit :: "string \<Rightarrow> atom list" where
  "lit s = map (\<lambda>x. One (\<lambda>c. c = x)) s"

text \<open>
  \<^verbatim>\<open>s.match(re) || []\<close> for a regular expression with the \<^verbatim>\<open>g\<close> flag: the matched
  texts from left to right, the search going on after each match (one code unit further
  after an empty match).
\<close>

fun matchAll :: "atom list \<Rightarrow> char option \<Rightarrow> string \<Rightarrow> string list" where
  "matchAll r prev [] = (case rxMatch r prev [] of Some n \<Rightarrow> [[]] | None \<Rightarrow> [])"
| "matchAll r prev (c # cs) =
     (case rxMatch r prev (c # cs) of
        None \<Rightarrow> matchAll r (Some c) cs
      | Some n \<Rightarrow>
          take n (c # cs) # matchAll r (Some (last (c # take (n - 1) cs))) (drop (n - 1) cs))"

text \<open>\<^verbatim>\<open>re.test(s)\<close> for a regular expression without the \<^verbatim>\<open>g\<close> flag.\<close>

fun test :: "atom list \<Rightarrow> char option \<Rightarrow> string \<Rightarrow> bool" where
  "test r prev [] = (rxMatch r prev [] \<noteq> None)"
| "test r prev (c # cs) = (rxMatch r prev (c # cs) \<noteq> None \<or> test r (Some c) cs)"

text \<open>
  \<^verbatim>\<open>s.replace(re, rep)\<close> for a regular expression with the \<^verbatim>\<open>g\<close> flag and a
  replacement text without \<^verbatim>\<open>$\<close>, which is all the source passes: a generated
  identifier, the empty string or an underscore.
\<close>

fun replace :: "atom list \<Rightarrow> string \<Rightarrow> char option \<Rightarrow> string \<Rightarrow> string" where
  "replace r rep prev [] = (case rxMatch r prev [] of Some n \<Rightarrow> rep | None \<Rightarrow> [])"
| "replace r rep prev (c # cs) =
     (case rxMatch r prev (c # cs) of
        None \<Rightarrow> c # replace r rep (Some c) cs
      | Some n \<Rightarrow>
          if n = 0 then rep @ c # replace r rep (Some c) cs
          else rep @ replace r rep (Some (last (c # take (n - 1) cs))) (drop (n - 1) cs))"

text \<open>
  \<^verbatim>\<open>escapeRegExp\<close> puts a backslash before every syntax character, and
  \<^verbatim>\<open>new RegExp(src, 'g')\<close> on such a source reads a backslash and the character after
  it as that character, and every other character as itself.
\<close>

fun escapeRegExp :: "string \<Rightarrow> string" where
  "escapeRegExp [] = []"
| "escapeRegExp (c # cs) =
     (if isRegExpSpecial c then CHR 0x5C # c # escapeRegExp cs else c # escapeRegExp cs)"

fun RegExp :: "string \<Rightarrow> atom list" where
  "RegExp [] = []"
| "RegExp [c] = [One (\<lambda>x. x = c)]"
| "RegExp (c # d # cs) =
     (if c = CHR 0x5C then One (\<lambda>x. x = d) # RegExp cs
      else One (\<lambda>x. x = c) # RegExp (d # cs))"

text \<open>The regular expression literals of the source.\<close>

text \<open>\<^verbatim>\<open>/<variable\.([^>]+)>/g\<close>\<close>

definition variableRegExp :: "atom list" where
  "variableRegExp = lit ''<variable.'' @ [Plus (\<lambda>c. c \<noteq> CHR ''>''), One (\<lambda>c. c = CHR ''>'')]"

text \<open>\<^verbatim>\<open>/\{\{([^}]+)\}\}/g\<close>\<close>

definition envVarRegExp :: "atom list" where
  "envVarRegExp = lit ''{{'' @ [Plus (\<lambda>c. c \<noteq> CHR ''}'')] @ lit ''}}''"

text \<open>\<^verbatim>\<open>/<([a-zA-Z_][a-zA-Z0-9_.]*[a-zA-Z0-9_])>/g\<close>\<close>

definition tagRegExp :: "atom list" where
  "tagRegExp = [One (\<lambda>c. c = CHR ''<''), One isTagStart, Star isTagChar, One isWordChar,
     One (\<lambda>c. c = CHR ''>'')]"

text \<open>\<^verbatim>\<open>/^import\s+/m\<close>\<close>

definition importRegExp :: "atom list" where
  "importRegExp = LineStart # lit ''import'' @ [Plus isSpace]"

text \<open>\<^verbatim>\<open>/require\s*\(\s*['"`]/\<close>\<close>

definition requireRegExp :: "atom list" where
  "requireRegExp = lit ''require'' @ [Star isSpace, One (\<lambda>c. c = CHR ''(''), Star isSpace, One isQuote]"

text \<open>\<^verbatim>\<open>/\s+/g\<close> and \<^verbatim>\<open>/[^a-zA-Z0-9_]/g\<close>\<close>

definition spacesRegExp :: "atom list" where
  "spacesRegExp = [Plus isSpace]"

definition nonWordRegExp :: "atom list" where
  "nonWordRegExp = [One (\<lambda>c. \<not> isWordChar c)]"

subsection \<open>JavaScript values\<close>

text \<open>
  Numbers are never computed with in this file, only tested for truth and passed on:
  a finite double is the rational it denotes (so \<open>+0\<close> and \<open>-0\<close> are one value).
\<close>

datatype jsnum = NaN | PosInfinity | NegInfinity | Num rat

datatype objkind = PlainObject | ArrayObject | ErrorObject

text \<open>Where a property that is not an own property is looked up.\<close>

datatype prototype =
    OfObject objkind
  | StringPrototype
  | NumberPrototype
  | BooleanPrototype
  | FunctionPrototype

datatype jsval =
    JUndefined
  | JNull
  | JBool bool
  | JNum jsnum
  | JStr string
  | JObj objkind "(string \<times> jsval) list"
  | JFunction string

text \<open>What \<^verbatim>\<open>if (v)\<close>, \<^verbatim>\<open>!v\<close>, \<^verbatim>\<open>a || b\<close> and \<^verbatim>\<open>a && b\<close> test.\<close>

fun truthy :: "jsval \<Rightarrow> bool" where
  "truthy JUndefined = False"
| "truthy JNull = False"
| "truthy (JBool b) = b"
| "truthy (JNum n) = (n \<noteq> NaN \<and> n \<noteq> Num 0)"
| "truthy (JStr s) = (s \<noteq> [])"
| "truthy (JObj k ps) = True"
| "truthy (JFunction f) = True"

text \<open>\<^verbatim>\<open>a || b\<close>\<close>

definition orElse :: "jsval \<Rightarrow> jsval \<Rightarrow> jsval" where
  "orElse a b = (if truthy a then a else b)"

text \<open>\<^verbatim>\<open>typeof v === 'object'\<close> and \<^verbatim>\<open>typeof v === 'string'\<close>\<close>

fun typeofObject :: "jsval \<Rightarrow> bool" where
  "typeofObject JNull = True"
| "typeofObject (JObj k ps) = True"
| "typeofObject v = False"

fun typeofString :: "jsval \<Rightarrow> bool" where
  "typeofString (JStr s) = True"
| "typeofString v = False"

text \<open>
  \<^verbatim>\<open>new Error(msg)\<close>, and the errors the runtime itself throws: the message is the
  only property the source reads.
\<close>

definition newError :: "string \<Rightarrow> jsval" where
  "newError msg = JObj ErrorObject [(''message'', JStr msg)]"

text \<open>A \<^verbatim>\<open>Record<string, string>\<close> as an object.\<close>

definition stringRecord :: "(string \<times> string) list \<Rightarrow> jsval" where
  "stringRecord ps = JObj PlainObject (map (\<lambda>(k, v). (k, JStr v)) ps)"

subsection \<open>The host\<close>

datatype console_call =
    ConsoleLog "jsval list"
  | ConsoleError "jsval list"
  | ConsoleWarn "jsval list"

text \<open>
  How the promise of \<^verbatim>\<open>script.runInContext\<close> ends: fulfilled with a value, rejected
  (or the synchronous part thrown or timed out) with a thrown value, or never settled.
\<close>

datatype completion = Completed jsval | Raised jsval | NeverSettles

text \<open>
  \<^item> \<open>E2B_ENABLED\<close>: \<^verbatim>\<open>env.E2B_ENABLED\<close>.
  \<^item> \<open>DEFAULT_EXECUTION_TIMEOUT_MS\<close>: the constant of \<^verbatim>\<open>lib/execution/constants\<close>.
  \<^item> \<open>inherited p key\<close>: what a read of \<open>key\<close> finds on the prototype chain \<open>p\<close>
    (\<open>JUndefined\<close> when the chain has no such property).
  \<^item> \<open>toNumber\<close>: \<^verbatim>\<open>Number(v)\<close>; \<open>JSON_parse\<close>: \<^verbatim>\<open>JSON.parse(s)\<close>;
    \<open>JSON_stringify\<close>: \<^verbatim>\<open>JSON.stringify(v, null, 2)\<close>; \<open>toStringOther\<close>:
    \<^verbatim>\<open>String(v)\<close> for a number, an object or a function. \<open>Inl\<close> is a throw.
  \<^item> \<open>compileScript\<close>: \<^verbatim>\<open>new Script(text, ...)\<close>, \<open>Some e\<close> when it throws \<open>e\<close>.
  \<^item> \<open>runScript text context timeout\<close>: \<^verbatim>\<open>await script.runInContext(...)\<close>: the calls
    the script makes to the console of the context, in order, and how the run ends.
  \<^item> \<open>startTime\<close>, \<open>endTime\<close>: the two readings of \<^verbatim>\<open>Date.now()\<close>.
\<close>

record host =
  E2B_ENABLED :: "string option"
  DEFAULT_EXECUTION_TIMEOUT_MS :: nat
  inherited :: "prototype \<Rightarrow> string \<Rightarrow> jsval"
  toNumber :: "jsval \<Rightarrow> jsval + jsnum"
  JSON_parse :: "string \<Rightarrow> jsval + jsval"
  JSON_stringify :: "jsval \<Rightarrow> string"
  toStringOther :: "jsval \<Rightarrow> string"
  compileScript :: "string \<Rightarrow> jsval option"
  runScript :: "string \<Rightarrow> (string \<times> jsval) list \<Rightarrow> nat \<Rightarrow> console_call list \<times> completion"
  startTime :: int
  endTime :: int

text \<open>
  \<^verbatim>\<open>v[key]\<close> for \<open>v\<close> neither \<^verbatim>\<open>undefined\<close> nor \<^verbatim>\<open>null\<close>: an own property
  of an object, or what its prototype chain has. The source reads only the properties
  \<^verbatim>\<open>name\<close>, \<^verbatim>\<open>type\<close>, \<^verbatim>\<open>value\<close> and \<^verbatim>\<open>message\<close> of values that may be
  primitive, and a primitive has none of these as its own.
\<close>

fun get :: "host \<Rightarrow> jsval \<Rightarrow> string \<Rightarrow> jsval" where
  "get h (JObj k ps) key =
     (case map_of ps key of Some x \<Rightarrow> x | None \<Rightarrow> inherited h (OfObject k) key)"
| "get h (JStr s) key = inherited h StringPrototype key"
| "get h (JNum n) key = inherited h NumberPrototype key"
| "get h (JBool b) key = inherited h BooleanPrototype key"
| "get h (JFunction f) key = inherited h FunctionPrototype key"
| "get h v key = JUndefined"

text \<open>\<^verbatim>\<open>v.key\<close> for any \<open>v\<close>: reading a property of \<^verbatim>\<open>undefined\<close> or \<^verbatim>\<open>null\<close> throws.\<close>

definition cannotRead :: "jsval \<Rightarrow> string \<Rightarrow> jsval" where
  "cannotRead v key = newError (''Cannot read properties of '' @
     (if v = JNull then ''null'' else ''undefined'') @ '' (reading '' @ [CHR 0x27] @ key @ [CHR 0x27] @ '')'')"

definition getMember :: "host \<Rightarrow> jsval \<Rightarrow> string \<Rightarrow> jsval + jsval" where
  "getMember h v key =
     (if v = JUndefined \<or> v = JNull then Inl (cannotRead v key) else Inr (get h v key))"

text \<open>\<^verbatim>\<open>String(v)\<close>\<close>

fun toString :: "host \<Rightarrow> jsval \<Rightarrow> string" where
  "toString h (JStr s) = s"
| "toString h JUndefined = ''undefined''"
| "toString h JNull = ''null''"
| "toString h (JBool b) = (if b then ''true'' else ''false'')"
| "toString h v = toStringOther h v"

subsection \<open>Variable resolution\<close>

text \<open>The body of \<^verbatim>\<open>for (const x of xs)\<close> may throw, which ends the loop.\<close>

fun forEach :: "('s \<Rightarrow> 'a \<Rightarrow> jsval + 's) \<Rightarrow> 's \<Rightarrow> 'a list \<Rightarrow> jsval + 's" where
  "forEach f s [] = Inr s"
| "forEach f s (x # xs) = (case f s x of Inl e \<Rightarrow> Inl e | Inr s' \<Rightarrow> forEach f s' xs)"

definition isTruthy :: "string option \<Rightarrow> bool" where
  "isTruthy v = (v = Some ''true'' \<or> v = Some ''1'')"

definition getNestedValue :: "host \<Rightarrow> jsval \<Rightarrow> string \<Rightarrow> jsval" where
  "getNestedValue h obj path =
     (if \<not> truthy obj \<or> path = [] then JUndefined
      else foldl (\<lambda>current key.
             if truthy current \<and> typeofObject current then get h current key else JUndefined)
           obj (split CHR ''.'' path))"

text \<open>
  \<^verbatim>\<open>Object.entries(workflowVariables).find(([_, variable]) =>
       (variable.name || '').replace(/\s+/g, '') === variableName)\<close>.
  The callback throws a \<^verbatim>\<open>TypeError\<close> on an entry that is \<^verbatim>\<open>undefined\<close> or
  \<^verbatim>\<open>null\<close>, and on a name that is truthy and no string (no such value of the model
  has a method \<^verbatim>\<open>replace\<close>).
\<close>

definition notAFunction :: jsval where
  "notAFunction = newError ''(variable.name || \"\").replace is not a function''"

fun find :: "host \<Rightarrow> (string \<times> jsval) list \<Rightarrow> string \<Rightarrow> jsval + (string \<times> jsval) option" where
  "find h [] variableName = Inr None"
| "find h ((k, variable) # entries) variableName =
     (case getMember h variable ''name'' of
        Inl e \<Rightarrow> Inl e
      | Inr n \<Rightarrow>
          (case orElse n (JStr []) of
             JStr s \<Rightarrow>
               if replace spacesRegExp [] None s = variableName then Inr (Some (k, variable))
               else find h entries variableName
           | _ \<Rightarrow> Inl notAFunction))"

text \<open>
  Lines 83 to 106: the value a found variable is bound to. The inner \<^verbatim>\<open>try\<close> keeps
  the value when \<^verbatim>\<open>JSON.parse\<close> throws, the outer one when \<^verbatim>\<open>Number\<close> does.
\<close>

definition coerce :: "host \<Rightarrow> jsval \<Rightarrow> jsval" where
  "coerce h variable =
     (let variableValue = get h variable ''value'' in
      if variableValue \<noteq> JUndefined \<and> variableValue \<noteq> JNull then
        (let type = (if get h variable ''type'' = JStr ''string'' then JStr ''plain''
                     else get h variable ''type'') in
         if type = JStr ''plain'' \<and> typeofString variableValue then variableValue
         else if type = JStr ''number'' then
           (case toNumber h variableValue of Inr n \<Rightarrow> JNum n | Inl e \<Rightarrow> variableValue)
         else if type = JStr ''boolean'' then
           JBool (variableValue = JStr ''true'' \<or> variableValue = JBool True)
         else if type = JStr ''json'' then
           (case variableValue of
              JStr s \<Rightarrow> (case JSON_parse h s of Inr v \<Rightarrow> v | Inl e \<Rightarrow> variableValue)
            | _ \<Rightarrow> variableValue)
         else variableValue)
      else variableValue)"

text \<open>\<^verbatim>\<open>name.replace(/[^a-zA-Z0-9_]/g, '_')\<close>\<close>

definition sanitize :: "string \<Rightarrow> string" where
  "sanitize name = replace nonWordRegExp ''_'' None name"

text \<open>The generated identifier: the prefix of the pass, then the sanitized name.\<close>

definition safeVarName :: "string \<Rightarrow> string \<Rightarrow> string" where
  "safeVarName pre name = pre @ sanitize name"

text \<open>\<^verbatim>\<open>resolvedCode.replace(new RegExp(escapeRegExp(match), 'g'), rep)\<close>\<close>

definition replaceEvery :: "string \<Rightarrow> string \<Rightarrow> string \<Rightarrow> string" where
  "replaceEvery match rep resolvedCode = replace (RegExp (escapeRegExp match)) rep None resolvedCode"

text \<open>
  The state of each loop is the pair of \<^verbatim>\<open>resolvedCode\<close> and the shared object
  \<^verbatim>\<open>contextVariables\<close>, which the loops assign to.
\<close>

type_synonym resolution = "string \<times> (string \<times> jsval) list"

definition workflowStep ::
  "host \<Rightarrow> (string \<times> jsval) list \<Rightarrow> resolution \<Rightarrow> string \<Rightarrow> jsval + resolution" where
  "workflowStep h wv st match =
     (let variableName = trim (slice 10 1 match) in
      case find h wv variableName of
        Inl e \<Rightarrow> Inl e
      | Inr None \<Rightarrow> Inr (replaceEvery match [] (fst st), snd st)
      | Inr (Some foundVariable) \<Rightarrow>
          (let variable = snd foundVariable;
               identifier = safeVarName ''__variable_'' variableName
           in Inr (replaceEvery match identifier (fst st),
                   AList.update identifier (coerce h variable) (snd st))))"

definition resolveWorkflowVariables ::
  "host \<Rightarrow> string \<Rightarrow> (string \<times> jsval) list \<Rightarrow> (string \<times> jsval) list \<Rightarrow> jsval + resolution" where
  "resolveWorkflowVariables h src wv ctx =
     forEach (workflowStep h wv) (src, ctx) (matchAll variableRegExp None src)"

text \<open>Line 133: \<^verbatim>\<open>envVars[varName] || params[varName] || ''\<close>\<close>

definition varValueOf ::
  "host \<Rightarrow> (string \<times> jsval) list \<Rightarrow> (string \<times> string) list \<Rightarrow> string \<Rightarrow> jsval" where
  "varValueOf h ps env varName =
     orElse (orElse (get h (stringRecord env) varName) (get h (JObj PlainObject ps) varName)) (JStr [])"

definition envStep ::
  "host \<Rightarrow> (string \<times> jsval) list \<Rightarrow> (string \<times> string) list \<Rightarrow> resolution \<Rightarrow> string \<Rightarrow> resolution" where
  "envStep h ps env st match =
     (let varName = trim (slice 2 2 match);
          varValue = varValueOf h ps env varName;
          identifier = safeVarName ''__var_'' varName
      in (replaceEvery match identifier (fst st), AList.update identifier varValue (snd st)))"

definition resolveEnvironmentVariables ::
  "host \<Rightarrow> string \<Rightarrow> (string \<times> jsval) list \<Rightarrow> (string \<times> string) list \<Rightarrow> (string \<times> jsval) list
     \<Rightarrow> resolution" where
  "resolveEnvironmentVariables h src ps env ctx =
     foldl (envStep h ps env) (src, ctx) (matchAll envVarRegExp None src)"

text \<open>
  Lines 160 to 171: the value of a tag. \<^verbatim>\<open>blockData[blockId]\<close> turns a key that is
  no string into one.
\<close>

definition tagValueOf ::
  "host \<Rightarrow> (string \<times> jsval) list \<Rightarrow> (string \<times> jsval) list \<Rightarrow> (string \<times> string) list \<Rightarrow> string
     \<Rightarrow> jsval" where
  "tagValueOf h ps bd bnm tagName =
     (let tagValue = orElse (orElse (getNestedValue h (JObj PlainObject ps) tagName)
                                    (getNestedValue h (JObj PlainObject bd) tagName)) (JStr [])
      in if \<not> truthy tagValue \<and> includesChar tagName CHR ''.'' then
           (let parts = split CHR ''.'' tagName;
                blockName = hd parts;
                path = join ''.'' (tl parts);
                blockId = get h (stringRecord bnm) (toLowerCase blockName)
            in if truthy blockId then
                 getNestedValue h (get h (JObj PlainObject bd) (toString h blockId)) path
               else tagValue)
         else tagValue)"

definition tagStep ::
  "host \<Rightarrow> (string \<times> jsval) list \<Rightarrow> (string \<times> jsval) list \<Rightarrow> (string \<times> string) list
     \<Rightarrow> resolution \<Rightarrow> string \<Rightarrow> resolution" where
  "tagStep h ps bd bnm st match =
     (let tagName = trim (slice 1 1 match);
          tagValue = tagValueOf h ps bd bnm tagName
      in if tagValue \<noteq> JUndefined \<and> tagValue \<noteq> JStr [] then
           (let identifier = safeVarName ''__tag_'' tagName
            in (replaceEvery match identifier (fst st),
                AList.update identifier tagValue (snd st)))
         else st)"

definition resolveTagVariables ::
  "host \<Rightarrow> string \<Rightarrow> (string \<times> jsval) list \<Rightarrow> (string \<times> jsval) list \<Rightarrow> (string \<times> string) list
     \<Rightarrow> (string \<times> jsval) list \<Rightarrow> resolution" where
  "resolveTagVariables h src ps bd bnm ctx =
     foldl (tagStep h ps bd bnm) (src, ctx) (matchAll tagRegExp None src)"

definition resolveCodeVariables ::
  "host \<Rightarrow> string \<Rightarrow> (string \<times> jsval) list \<Rightarrow> (string \<times> string) list \<Rightarrow> (string \<times> jsval) list
     \<Rightarrow> (string \<times> string) list \<Rightarrow> (string \<times> jsval) list \<Rightarrow> jsval + resolution" where
  "resolveCodeVariables h src ps env bd bnm wv =
     (case resolveWorkflowVariables h src wv [] of
        Inl e \<Rightarrow> Inl e
      | Inr st1 \<Rightarrow>
          (let st2 = resolveEnvironmentVariables h (fst st1) ps env (snd st1);
               st3 = resolveTagVariables h (fst st2) ps bd bnm (snd st2)
           in Inr st3))"

subsection \<open>The execution\<close>

record FunctionExecutionInput =
  code :: string
  params :: "(string \<times> jsval) list option"
  timeout :: "nat option"
  language :: "string option"
  envVars :: "(string \<times> string) list option"
  blockData :: "(string \<times> jsval) list option"
  blockNameMapping :: "(string \<times> string) list option"
  workflowVariables :: "(string \<times> jsval) list option"
  workflowId :: "string option"
  isCustomTool :: "bool option"

record ExecutionOutput =
  result :: jsval
  stdout :: string
  executionTime :: int

record FunctionExecutionOutput =
  success :: bool
  output' :: ExecutionOutput
  error :: "jsval option"

text \<open>
  What a call of the asynchronous function comes to: its promise is fulfilled with an
  output, rejected with a thrown value, or never settled.
\<close>

datatype outcome = Returns FunctionExecutionOutput | Throws jsval | Pending

text \<open>
  Modelled from the spec: \<^verbatim>\<open>lib/execution/languages\<close> is not among the sources. The
  spec gives the languages as the enumeration of JavaScript and Python and JavaScript as
  the default; the tool description names them \<^verbatim>\<open>javascript\<close> and \<^verbatim>\<open>python\<close>.
\<close>

datatype CodeLanguage = JavaScript | Python

text \<open>Modelled from the spec: the default language is JavaScript.\<close>

definition DEFAULT_CODE_LANGUAGE :: CodeLanguage where
  "DEFAULT_CODE_LANGUAGE = JavaScript"

text \<open>
  Modelled from the spec: \<^verbatim>\<open>isValidCodeLanguage(language) ? language : DEFAULT_CODE_LANGUAGE\<close>,
  a string being a valid language when it is one of the two of the enumeration.
\<close>

definition validLanguage :: "string \<Rightarrow> CodeLanguage" where
  "validLanguage l =
     (if l = ''javascript'' then JavaScript
      else if l = ''python'' then Python
      else DEFAULT_CODE_LANGUAGE)"

definition cleanStdout :: "string \<Rightarrow> string" where
  "cleanStdout out = (if endsWith out [CHR 0x0A] then slice 0 1 out else out)"

text \<open>The three methods of the console of the context, which append to \<^verbatim>\<open>stdout\<close>.\<close>

definition formatArgs :: "host \<Rightarrow> jsval list \<Rightarrow> string" where
  "formatArgs h args =
     join '' '' (map (\<lambda>arg. if typeofObject arg then JSON_stringify h arg else toString h arg) args)"

fun consoleWrite :: "host \<Rightarrow> string \<Rightarrow> console_call \<Rightarrow> string" where
  "consoleWrite h out (ConsoleLog args) = out @ formatArgs h args @ [CHR 0x0A]"
| "consoleWrite h out (ConsoleError args) = out @ ''[ERROR] '' @ formatArgs h args @ [CHR 0x0A]"
| "consoleWrite h out (ConsoleWarn args) = out @ ''[WARN] '' @ formatArgs h args @ [CHR 0x0A]"

text \<open>
  The context object: the allow-list of globals, each an opaque object of the host, and
  then the spread of \<^verbatim>\<open>contextVariables\<close>.
\<close>

definition capabilities :: "string list" where
  "capabilities = [''console'', ''fetch'', ''URL'', ''URLSearchParams'', ''Headers'', ''Request'',
     ''Response'', ''FormData'', ''Blob'', ''TextEncoder'', ''TextDecoder'', ''AbortController'',
     ''AbortSignal'', ''atob'', ''btoa'', ''Buffer'', ''setTimeout'', ''clearTimeout'', ''JSON'',
     ''Object'', ''Array'', ''String'', ''Number'', ''Boolean'', ''Date'', ''Math'', ''RegExp'',
     ''Error'', ''Promise'', ''Map'', ''Set'', ''parseInt'', ''parseFloat'', ''isNaN'', ''isFinite'',
     ''encodeURIComponent'', ''decodeURIComponent'', ''encodeURI'', ''decodeURI'']"

definition buildContext :: "(string \<times> jsval) list \<Rightarrow> (string \<times> jsval) list" where
  "buildContext contextVariables =
     foldl (\<lambda>context (k, v). AList.update k v context)
       (map (\<lambda>name. (name, JFunction name)) capabilities) contextVariables"

definition wrapperLines :: "string list" where
  "wrapperLines = ['';(async () => {'', ''  try {'', ''    return await (async () => {'']"

definition indentedCode :: "string \<Rightarrow> string" where
  "indentedCode resolvedCode =
     join [CHR 0x0A] (map (\<lambda>line. ''      '' @ line) (split CHR 0x0A resolvedCode))"

definition fullScript :: "string \<Rightarrow> string" where
  "fullScript resolvedCode =
     join [CHR 0x0A] (wrapperLines @
       [indentedCode resolvedCode,
        ''    })();'',
        ''  } catch (error) {'',
        ''    console.error(error);'',
        ''    throw error;'',
        ''  }'',
        ''})()''])"

text \<open>Lines 276 and 277, on the resolved code.\<close>

definition hasImports :: "CodeLanguage \<Rightarrow> string \<Rightarrow> bool" where
  "hasImports lang resolvedCode =
     (lang = JavaScript \<and>
      (test importRegExp None resolvedCode \<or> test requireRegExp None resolvedCode))"

text \<open>
  The \<^verbatim>\<open>catch\<close> block of lines 424 to 447, with the \<^verbatim>\<open>stdout\<close> written so far.
  Reading \<^verbatim>\<open>error.message\<close> throws when the caught value is \<^verbatim>\<open>undefined\<close> or
  \<^verbatim>\<open>null\<close>, and nothing catches that.
\<close>

definition catchBlock :: "host \<Rightarrow> string \<Rightarrow> jsval \<Rightarrow> outcome" where
  "catchBlock h out err =
     (case getMember h err ''message'' of
        Inl e \<Rightarrow> Throws e
      | Inr message \<Rightarrow>
          if message = JStr ''__USE_HTTP_ROUTE__'' then Throws err
          else Returns \<lparr>success = False,
                 output' = \<lparr>result = JNull, stdout = cleanStdout out,
                           executionTime = endTime h - startTime h\<rparr>,
                 error = Some (orElse message (JStr ''Function execution failed''))\<rparr>)"

definition pythonRequiresE2B :: string where
  "pythonRequiresE2B = ''Python execution requires E2B to be enabled. Please contact your administrator to enable E2B, or use JavaScript instead.''"

definition importsRequireE2B :: string where
  "importsRequireE2B = ''JavaScript code with import statements requires E2B to be enabled. Please remove the import statements, or contact your administrator to enable E2B.''"

text \<open>Lines 300 to 423: the script is compiled and run, and the output assembled.\<close>

definition runLocally :: "host \<Rightarrow> string \<Rightarrow> (string \<times> jsval) list \<Rightarrow> nat \<Rightarrow> outcome" where
  "runLocally h resolvedCode contextVariables ms =
     (case compileScript h (fullScript resolvedCode) of
        Some syntaxError \<Rightarrow> catchBlock h [] syntaxError
      | None \<Rightarrow>
          (case runScript h (fullScript resolvedCode) (buildContext contextVariables) ms of
             (calls, completion) \<Rightarrow>
               (let out = foldl (consoleWrite h) [] calls in
                case completion of
                  Completed r \<Rightarrow>
                    Returns \<lparr>success = True,
                      output' = \<lparr>result = r, stdout = cleanStdout out,
                                executionTime = endTime h - startTime h\<rparr>,
                      error = None\<rparr>
                | Raised e \<Rightarrow> catchBlock h out e
                | NeverSettles \<Rightarrow> Pending)))"

text \<open>Lines 232 to 264: the defaults of the input, and the resolution of its code.\<close>

definition paramsOf :: "FunctionExecutionInput \<Rightarrow> (string \<times> jsval) list" where
  "paramsOf input = (case params input of None \<Rightarrow> [] | Some p \<Rightarrow> p)"

definition timeoutOf :: "host \<Rightarrow> FunctionExecutionInput \<Rightarrow> nat" where
  "timeoutOf h input = (case timeout input of None \<Rightarrow> DEFAULT_EXECUTION_TIMEOUT_MS h | Some t \<Rightarrow> t)"

definition languageOf :: "FunctionExecutionInput \<Rightarrow> CodeLanguage" where
  "languageOf input = (case language input of None \<Rightarrow> DEFAULT_CODE_LANGUAGE | Some l \<Rightarrow> validLanguage l)"

definition envVarsOf :: "FunctionExecutionInput \<Rightarrow> (string \<times> string) list" where
  "envVarsOf input = (case envVars input of None \<Rightarrow> [] | Some e \<Rightarrow> e)"

definition blockDataOf :: "FunctionExecutionInput \<Rightarrow> (string \<times> jsval) list" where
  "blockDataOf input = (case blockData input of None \<Rightarrow> [] | Some b \<Rightarrow> b)"

definition blockNameMappingOf :: "FunctionExecutionInput \<Rightarrow> (string \<times> string) list" where
  "blockNameMappingOf input = (case blockNameMapping input of None \<Rightarrow> [] | Some b \<Rightarrow> b)"

definition workflowVariablesOf :: "FunctionExecutionInput \<Rightarrow> (string \<times> jsval) list" where
  "workflowVariablesOf input = (case workflowVariables input of None \<Rightarrow> [] | Some w \<Rightarrow> w)"

definition isCustomToolOf :: "FunctionExecutionInput \<Rightarrow> bool" where
  "isCustomToolOf input = (case isCustomTool input of None \<Rightarrow> False | Some b \<Rightarrow> b)"

definition executionParams :: "FunctionExecutionInput \<Rightarrow> (string \<times> jsval) list" where
  "executionParams input = AList.update ''_context'' JUndefined (paramsOf input)"

definition codeResolution :: "host \<Rightarrow> FunctionExecutionInput \<Rightarrow> jsval + resolution" where
  "codeResolution h input =
     resolveCodeVariables h (code input) (executionParams input) (envVarsOf input)
       (blockDataOf input) (blockNameMappingOf input) (workflowVariablesOf input)"

text \<open>
  Lines 272 to 298, the three \<^verbatim>\<open>throw\<close> statements in their order, and the way on to
  the local run when none is reached.
\<close>

datatype route = PythonNeedsE2B | ImportsNeedE2B | UseHttpRoute | LocalVm

definition routeOf :: "host \<Rightarrow> FunctionExecutionInput \<Rightarrow> string \<Rightarrow> route" where
  "routeOf h input resolvedCode =
     (let e2bEnabled = isTruthy (E2B_ENABLED h);
          lang = languageOf input;
          imports = hasImports lang resolvedCode
      in if lang = Python \<and> \<not> e2bEnabled then PythonNeedsE2B
         else if lang = JavaScript \<and> imports \<and> \<not> e2bEnabled then ImportsNeedE2B
         else if e2bEnabled \<and> \<not> isCustomToolOf input \<and> (lang = Python \<or> imports) then UseHttpRoute
         else LocalVm)"

definition executeFunction :: "host \<Rightarrow> FunctionExecutionInput \<Rightarrow> outcome" where
  "executeFunction h input =
     (case codeResolution h input of
        Inl e \<Rightarrow> catchBlock h [] e
      | Inr st \<Rightarrow>
          (let resolvedCode = fst st; contextVariables = snd st
           in case routeOf h input resolvedCode of
                PythonNeedsE2B \<Rightarrow> catchBlock h [] (newError pythonRequiresE2B)
              | ImportsNeedE2B \<Rightarrow> catchBlock h [] (newError importsRequireE2B)
              | UseHttpRoute \<Rightarrow> catchBlock h [] (newError ''__USE_HTTP_ROUTE__'')
              | LocalVm \<Rightarrow> runLocally h resolvedCode contextVariables (timeoutOf h input)))"

subsection \<open>Notions for the properties\<close>

text \<open>The failure output of the \<^verbatim>\<open>catch\<close> block with a message.\<close>

definition failure :: "host \<Rightarrow> string \<Rightarrow> string \<Rightarrow> outcome" where
  "failure h out msg = Returns \<lparr>success = False,
       output' = \<lparr>result = JNull, stdout = out, executionTime = endTime h - startTime h\<rparr>,
       error = Some (JStr msg)\<rparr>"

text \<open>
  A code without references: none of the three regular expressions of the resolver finds
  a match in it.
\<close>

definition referenceFree :: "string \<Rightarrow> bool" where
  "referenceFree src =
     (matchAll variableRegExp None src = [] \<and> matchAll envVarRegExp None src = []
      \<and> matchAll tagRegExp None src = [])"

text \<open>
  The assignments of a loop to \<^verbatim>\<open>contextVariables\<close>, as one fold over the matches:
  \<open>b m\<close> is the identifier and the value the step for the match \<open>m\<close> assigns, if it
  assigns any.
\<close>

definition bindAll ::
  "('m \<Rightarrow> (string \<times> jsval) option) \<Rightarrow> (string \<times> jsval) list \<Rightarrow> 'm list \<Rightarrow> (string \<times> jsval) list" where
  "bindAll b ctx ms =
     foldl (\<lambda>c m. case b m of None \<Rightarrow> c | Some (k, v) \<Rightarrow> AList.update k v c) ctx ms"

text \<open>
  What the step of the first pass assigns for a match, if it assigns, and the text it
  puts in the place of the match.
\<close>

definition workflowBinding ::
  "host \<Rightarrow> (string \<times> jsval) list \<Rightarrow> string \<Rightarrow> (string \<times> jsval) option" where
  "workflowBinding h wv m =
     (case find h wv (trim (slice 10 1 m)) of
        Inr (Some foundVariable) \<Rightarrow>
          Some (safeVarName ''__variable_'' (trim (slice 10 1 m)), coerce h (snd foundVariable))
      | _ \<Rightarrow> None)"

definition workflowReplacement :: "host \<Rightarrow> (string \<times> jsval) list \<Rightarrow> string \<Rightarrow> string" where
  "workflowReplacement h wv m =
     (case find h wv (trim (slice 10 1 m)) of
        Inr (Some foundVariable) \<Rightarrow> safeVarName ''__variable_'' (trim (slice 10 1 m))
      | _ \<Rightarrow> [])"

text \<open>What the step of the second pass assigns for a match.\<close>

definition envBinding ::
  "host \<Rightarrow> (string \<times> jsval) list \<Rightarrow> (string \<times> string) list \<Rightarrow> string \<Rightarrow> (string \<times> jsval) option" where
  "envBinding h ps env m =
     Some (safeVarName ''__var_'' (trim (slice 2 2 m)), varValueOf h ps env (trim (slice 2 2 m)))"

text \<open>What the step of the third pass assigns for a match, if it assigns.\<close>

definition tagBinding ::
  "host \<Rightarrow> (string \<times> jsval) list \<Rightarrow> (string \<times> jsval) list \<Rightarrow> (string \<times> string) list \<Rightarrow> string
     \<Rightarrow> (string \<times> jsval) option" where
  "tagBinding h ps bd bnm m =
     (let tagName = trim (slice 1 1 m); tagValue = tagValueOf h ps bd bnm tagName
      in if tagValue \<noteq> JUndefined \<and> tagValue \<noteq> JStr []
         then Some (safeVarName ''__tag_'' tagName, tagValue) else None)"

text \<open>
  The name the callback of \<^verbatim>\<open>find\<close> compares, when it does not throw:
  \<^verbatim>\<open>(variable.name || '').replace(/\s+/g, '')\<close>.
\<close>

definition strippedName :: "host \<Rightarrow> jsval \<Rightarrow> string option" where
  "strippedName h variable =
     (case getMember h variable ''name'' of
        Inl e \<Rightarrow> None
      | Inr n \<Rightarrow>
          (case orElse n (JStr []) of
             JStr s \<Rightarrow> Some (replace spacesRegExp [] None s)
           | _ \<Rightarrow> None))"

subsection \<open>A host and inputs for the examples\<close>

text \<open>
  The prototype chains of the examples: a plain object inherits the properties of
  \<^verbatim>\<open>Object.prototype\<close>, opaque functions here, and the examples ask no other
  prototype for a property.
\<close>

definition objectPrototype :: "string list" where
  "objectPrototype = [''constructor'', ''__defineGetter__'', ''__defineSetter__'', ''hasOwnProperty'',
     ''__lookupGetter__'', ''__lookupSetter__'', ''isPrototypeOf'', ''propertyIsEnumerable'',
     ''toString'', ''valueOf'', ''__proto__'', ''toLocaleString'']"

fun exampleInherited :: "prototype \<Rightarrow> string \<Rightarrow> jsval" where
  "exampleInherited (OfObject PlainObject) key =
     (if key \<in> set objectPrototype then JFunction key else JUndefined)"
| "exampleInherited p key = JUndefined"

text \<open>
  \<^verbatim>\<open>Number\<close> and \<^verbatim>\<open>JSON.parse\<close> on the few values the examples pass them.
\<close>

fun exampleNumber :: "jsval \<Rightarrow> jsval + jsnum" where
  "exampleNumber (JNum n) = Inr n"
| "exampleNumber (JBool b) = Inr (Num (if b then 1 else 0))"
| "exampleNumber JNull = Inr (Num 0)"
| "exampleNumber (JStr s) = (if s = ''42'' then Inr (Num 42) else Inr NaN)"
| "exampleNumber v = Inr NaN"

definition exampleParse :: "string \<Rightarrow> jsval + jsval" where
  "exampleParse s =
     (if s = ''true'' then Inr (JBool True)
      else if s = ''null'' then Inr JNull
      else if s = ''{}'' then Inr (JObj PlainObject [])
      else Inl (newError ''Unexpected token''))"

text \<open>
  A host with the value of \<^verbatim>\<open>E2B_ENABLED\<close>, the compiler and the runs given, whose
  clock shows seven milliseconds between its two readings.
\<close>

definition exampleHost ::
  "string option \<Rightarrow> (string \<Rightarrow> jsval option) \<Rightarrow>
   (string \<Rightarrow> (string \<times> jsval) list \<Rightarrow> nat \<Rightarrow> console_call list \<times> completion) \<Rightarrow> host" where
  "exampleHost e2b compile run =
     \<lparr>E2B_ENABLED = e2b, DEFAULT_EXECUTION_TIMEOUT_MS = 5000,
      inherited = exampleInherited, toNumber = exampleNumber, JSON_parse = exampleParse,
      JSON_stringify = (\<lambda>v. if v = JNull then ''null'' else ''{}''),
      toStringOther = (\<lambda>v. ''[object Object]''),
      compileScript = compile, runScript = run, startTime = 1000, endTime = 1007\<rparr>"

text \<open>A compiler that accepts every script, and the runs of the examples.\<close>

definition compiles :: "string \<Rightarrow> jsval option" where
  "compiles text = None"

definition idleVm :: "string \<Rightarrow> (string \<times> jsval) list \<Rightarrow> nat \<Rightarrow> console_call list \<times> completion" where
  "idleVm text context ms = ([], Completed JUndefined)"


definition throwsNull :: "string \<Rightarrow> (string \<times> jsval) list \<Rightarrow> nat \<Rightarrow> console_call list \<times> completion" where
  "throwsNull text context ms = ([ConsoleError [JNull]], Raised JNull)"

definition throwsSignal :: "string \<Rightarrow> (string \<times> jsval) list \<Rightarrow> nat \<Rightarrow> console_call list \<times> completion" where
  "throwsSignal text context ms =
     ([ConsoleError [newError ''__USE_HTTP_ROUTE__'']], Raised (newError ''__USE_HTTP_ROUTE__''))"

text \<open>The codes of the examples.\<close>

definition userThrow :: string where
  "userThrow = ''throw new Error('__USE_HTTP_ROUTE__')''"


definition resolvable :: string where
  "resolvable = ''return {{FOO}} + <variable.n>;''"



text \<open>An input with the code alone, every other field left out, and the inputs of the examples.\<close>

definition request :: "string \<Rightarrow> FunctionExecutionInput" where
  "request src =
     \<lparr>code = src, params = None, timeout = None, language = None, envVars = None,
      blockData = None, blockNameMapping = None, workflowVariables = None, workflowId = None,
      isCustomTool = None\<rparr>"

definition pythonRequest :: FunctionExecutionInput where
  "pythonRequest = (request ''print(1)'')\<lparr>language := Some ''python''\<rparr>"

definition importRequest :: FunctionExecutionInput where
  "importRequest = (request ''import fs from 'fs';'')\<lparr>language := Some ''javascript''\<rparr>"



definition exampleBlocks :: "(string \<times> jsval) list" where
  "exampleBlocks = [(''id1'', JObj PlainObject
     [(''x_y'', JStr ''A''), (''x'', JObj PlainObject [(''y'', JStr ''B'')]), (''empty'', JStr [])])]"

definition workflowVariable :: "string \<Rightarrow> string \<Rightarrow> jsval \<Rightarrow> jsval" where
  "workflowVariable name type v =
     JObj PlainObject [(''id'', JStr name), (''name'', JStr name), (''type'', JStr type), (''value'', v)]"

definition exampleVariables :: "(string \<times> jsval) list" where
  "exampleVariables = [(''v1'', workflowVariable ''n'' ''number'' (JStr ''42''))]"

section \<open>Properties\<close>

lemmas charClass_defs = charBetween_def isWordChar_def isTagStart_def isTagChar_def isSpace_def
  isLineTerminator_def isQuote_def isRegExpSpecial_def

lemmas regExp_defs = variableRegExp_def envVarRegExp_def tagRegExp_def importRegExp_def
  requireRegExp_def spacesRegExp_def nonWordRegExp_def lit_def

lemmas input_defs = paramsOf_def timeoutOf_def languageOf_def envVarsOf_def blockDataOf_def
  blockNameMappingOf_def workflowVariablesOf_def isCustomToolOf_def executionParams_def request_def

lemmas resolve_defs = codeResolution_def resolveCodeVariables_def resolveWorkflowVariables_def
  resolveEnvironmentVariables_def resolveTagVariables_def

subsection \<open>The resolution does not look at the virtual machine\<close>

lemma get_vm [simp]: "get (h\<lparr>compileScript := c, runScript := r\<rparr>) v key = get h v key"
  by (cases v) (simp_all split: option.splits)

lemma getMember_vm [simp]:
  "getMember (h\<lparr>compileScript := c, runScript := r\<rparr>) v key = getMember h v key"
  by (simp add: getMember_def)

lemma toString_vm [simp]: "toString (h\<lparr>compileScript := c, runScript := r\<rparr>) v = toString h v"
  by (cases v) simp_all

lemma getNestedValue_vm [simp]:
  "getNestedValue (h\<lparr>compileScript := c, runScript := r\<rparr>) obj path = getNestedValue h obj path"
  by (simp add: getNestedValue_def cong: if_cong)

lemma find_vm [simp]: "find (h\<lparr>compileScript := c, runScript := r\<rparr>) wv name = find h wv name"
  by (induction wv) (auto split: sum.splits jsval.splits)

lemma coerce_vm [simp]: "coerce (h\<lparr>compileScript := c, runScript := r\<rparr>) v = coerce h v"
  by (simp add: coerce_def Let_def cong: if_cong sum.case_cong jsval.case_cong)

lemma workflowStep_vm [simp]:
  "workflowStep (h\<lparr>compileScript := c, runScript := r\<rparr>) wv = workflowStep h wv"
  by (intro ext) (simp add: workflowStep_def cong: sum.case_cong option.case_cong)

lemma envStep_vm [simp]: "envStep (h\<lparr>compileScript := c, runScript := r\<rparr>) ps env = envStep h ps env"
  by (intro ext) (simp add: envStep_def varValueOf_def del: get.simps)

lemma tagValueOf_vm [simp]:
  "tagValueOf (h\<lparr>compileScript := c, runScript := r\<rparr>) ps bd bnm tagName = tagValueOf h ps bd bnm tagName"
  by (simp add: tagValueOf_def Let_def del: get.simps cong: if_cong)

lemma tagStep_vm [simp]:
  "tagStep (h\<lparr>compileScript := c, runScript := r\<rparr>) ps bd bnm = tagStep h ps bd bnm"
  by (intro ext) (simp add: tagStep_def)

lemma resolveCodeVariables_vm [simp]:
  "resolveCodeVariables (h\<lparr>compileScript := c, runScript := r\<rparr>) src ps env bd bnm wv =
   resolveCodeVariables h src ps env bd bnm wv"
  by (simp add: resolveCodeVariables_def resolveWorkflowVariables_def
      resolveEnvironmentVariables_def resolveTagVariables_def cong: sum.case_cong)

lemma codeResolution_vm:
  "codeResolution (h\<lparr>compileScript := c, runScript := r\<rparr>) input = codeResolution h input"
  by (simp add: codeResolution_def)

lemma routeOf_vm: "routeOf (h\<lparr>compileScript := c, runScript := r\<rparr>) input src = routeOf h input src"
  by (simp add: routeOf_def)

lemma catchBlock_vm:
  "catchBlock (h\<lparr>compileScript := c, runScript := r\<rparr>) out e = catchBlock h out e"
  by (simp add: catchBlock_def cong: sum.case_cong if_cong)

lemma catchBlock_newError:
  "msg \<noteq> [] \<Longrightarrow> msg \<noteq> ''__USE_HTTP_ROUTE__'' \<Longrightarrow>
   catchBlock h out (newError msg) =
     Returns \<lparr>success = False,
       output' = \<lparr>result = JNull, stdout = cleanStdout out, executionTime = endTime h - startTime h\<rparr>,
       error = Some (JStr msg)\<rparr>"
  by (simp add: catchBlock_def getMember_def newError_def orElse_def)

lemma catchBlock_signal:
  "catchBlock h out (newError ''__USE_HTTP_ROUTE__'') = Throws (newError ''__USE_HTTP_ROUTE__'')"
  by (simp add: catchBlock_def getMember_def newError_def)

lemma validLanguage_python: "languageOf input = Python \<longleftrightarrow> language input = Some ''python''"
  by (simp add: languageOf_def validLanguage_def DEFAULT_CODE_LANGUAGE_def split: option.splits)

lemmas eval_defs = resolve_defs input_defs regExp_defs charClass_defs exampleHost_def
  isTruthy_def DEFAULT_CODE_LANGUAGE_def validLanguage_def routeOf_def hasImports_def
  executeFunction_def catchBlock_def getMember_def newError_def orElse_def cleanStdout_def
  endsWith_def slice_def trim_def workflowStep_def envStep_def tagStep_def tagValueOf_def
  getNestedValue_def sanitize_def replaceEvery_def stringRecord_def cannotRead_def
  runLocally_def compiles_def idleVm_def objectPrototype_def Let_def safeVarName_def varValueOf_def


subsection \<open>Python requests\<close>

text \<open>
  C1 (as amended). For a request whose language is Python the variables are resolved
  first, and a value the resolution throws goes to the \<^verbatim>\<open>catch\<close> block. When the
  resolution returns and E2B is not enabled, the call returns the failure output with the
  message that Python requires E2B; when E2B is enabled and the request is no custom tool,
  the call throws the error \<^verbatim>\<open>__USE_HTTP_ROUTE__\<close>. In both cases nothing is compiled
  or run: the outcome is the same whatever the virtual machine of the host.
\<close>

theorem python_request:
  "languageOf input = Python \<longrightarrow>
     (\<forall>e. codeResolution h input = Inl e \<longrightarrow> executeFunction h input = catchBlock h [] e) \<and>
     (\<forall>st. codeResolution h input = Inr st \<longrightarrow>
        (\<not> isTruthy (E2B_ENABLED h) \<longrightarrow>
           (\<forall>c r. executeFunction (h\<lparr>compileScript := c, runScript := r\<rparr>) input =
              failure h [] pythonRequiresE2B)) \<and>
        (isTruthy (E2B_ENABLED h) \<and> \<not> isCustomToolOf input \<longrightarrow>
           (\<forall>c r. executeFunction (h\<lparr>compileScript := c, runScript := r\<rparr>) input =
              Throws (newError ''__USE_HTTP_ROUTE__''))))"
proof (intro impI conjI allI)
  fix e assume "codeResolution h input = Inl e"
  then show "executeFunction h input = catchBlock h [] e"
    by (simp add: executeFunction_def)
next
  fix st c r
  assume py: "languageOf input = Python" and res: "codeResolution h input = Inr st"
    and e2b: "\<not> isTruthy (E2B_ENABLED h)"
  have "routeOf h input (fst st) = PythonNeedsE2B"
    using py e2b by (simp add: routeOf_def)
  then show "executeFunction (h\<lparr>compileScript := c, runScript := r\<rparr>) input = failure h [] pythonRequiresE2B"
    using res
    by (simp add: executeFunction_def codeResolution_vm routeOf_vm catchBlock_vm
        catchBlock_newError pythonRequiresE2B_def failure_def cleanStdout_def endsWith_def)
next
  fix st c r
  assume py: "languageOf input = Python" and res: "codeResolution h input = Inr st"
    and e2b: "isTruthy (E2B_ENABLED h) \<and> \<not> isCustomToolOf input"
  have "routeOf h input (fst st) = UseHttpRoute"
    using py e2b by (simp add: routeOf_def)
  then show "executeFunction (h\<lparr>compileScript := c, runScript := r\<rparr>) input = Throws (newError ''__USE_HTTP_ROUTE__'')"
    using res
    by (simp add: executeFunction_def codeResolution_vm routeOf_vm catchBlock_vm catchBlock_signal)
qed


theorem python_request_witness:
  "languageOf pythonRequest = Python
   \<and> codeResolution (exampleHost (Some ''true'') compiles idleVm) pythonRequest = Inr (''print(1)'', [])
   \<and> isTruthy (E2B_ENABLED (exampleHost (Some ''true'') compiles idleVm))
   \<and> \<not> isCustomToolOf pythonRequest
   \<and> executeFunction (exampleHost (Some ''true'') compiles idleVm) pythonRequest =
       Throws (newError ''__USE_HTTP_ROUTE__'')"
proof -
  let ?h = "exampleHost (Some ''true'') compiles idleVm"
  have l: "languageOf pythonRequest = Python"
    by (simp add: pythonRequest_def request_def languageOf_def validLanguage_def)
  have r: "codeResolution ?h pythonRequest = Inr (''print(1)'', [])"
    by (simp add: pythonRequest_def resolve_defs input_defs regExp_defs charClass_defs)
  have e: "isTruthy (E2B_ENABLED ?h)" "\<not> isCustomToolOf pythonRequest"
    by (simp_all add: exampleHost_def isTruthy_def pythonRequest_def input_defs)
  have same: "?h\<lparr>compileScript := compiles, runScript := idleVm\<rparr> = ?h"
    by (simp add: exampleHost_def)
  from python_request [of pythonRequest ?h] l r e
  have "executeFunction (?h\<lparr>compileScript := compiles, runScript := idleVm\<rparr>) pythonRequest =
       Throws (newError ''__USE_HTTP_ROUTE__'')"
    by blast
  with l r e same show ?thesis by simp
qed


text \<open>
  C1 as stated fails. With E2B not enabled a Python request returns a failure output and
  throws nothing; and with E2B enabled the resolver has run before the language is looked
  at, so that a \<^verbatim>\<open>TypeError\<close> of the resolver is what the call returns.
\<close>

theorem python_without_E2B:
  "executeFunction (exampleHost None compiles idleVm) pythonRequest =
     Returns \<lparr>success = False,
       output' = \<lparr>result = JNull, stdout = [], executionTime = 7\<rparr>,
       error = Some (JStr pythonRequiresE2B)\<rparr>
   \<and> executeFunction (exampleHost (Some ''true'') compiles idleVm)
       ((request ''<variable.x>'')\<lparr>language := Some ''python'', workflowVariables := Some [(''v1'', JNull)]\<rparr>) =
     Returns \<lparr>success = False,
       output' = \<lparr>result = JNull, stdout = [], executionTime = 7\<rparr>,
       error = Some (JStr ''Cannot read properties of null (reading 'name')'')\<rparr>"
  by (simp add: eval_defs pythonRequest_def pythonRequiresE2B_def)

subsection \<open>JavaScript requests with imports\<close>

lemma validLanguage_javascript:
  "language input = Some ''javascript'' \<Longrightarrow> languageOf input = JavaScript"
  by (simp add: languageOf_def validLanguage_def)

text \<open>
  C2 (as amended). For a JavaScript request whose resolved code has a line that starts
  with \<^verbatim>\<open>import\<close> and white space, or a \<^verbatim>\<open>require(\<close> followed by a quote:
  when E2B is not enabled the call returns the failure output with the message that
  imports require E2B; when E2B is enabled and the request is no custom tool, the call
  throws the error \<^verbatim>\<open>__USE_HTTP_ROUTE__\<close>, which carries a message and no reason. In
  both cases nothing is compiled or run.
\<close>

theorem import_request:
  "languageOf input = JavaScript \<longrightarrow>
     (\<forall>st. codeResolution h input = Inr st \<and>
        (test importRegExp None (fst st) \<or> test requireRegExp None (fst st)) \<longrightarrow>
        (\<not> isTruthy (E2B_ENABLED h) \<longrightarrow>
           (\<forall>c r. executeFunction (h\<lparr>compileScript := c, runScript := r\<rparr>) input =
              failure h [] importsRequireE2B)) \<and>
        (isTruthy (E2B_ENABLED h) \<and> \<not> isCustomToolOf input \<longrightarrow>
           (\<forall>c r. executeFunction (h\<lparr>compileScript := c, runScript := r\<rparr>) input =
              Throws (newError ''__USE_HTTP_ROUTE__''))))"
proof (intro impI conjI allI)
  fix st c r
  assume js: "languageOf input = JavaScript"
    and res: "codeResolution h input = Inr st \<and>
        (test importRegExp None (fst st) \<or> test requireRegExp None (fst st))"
    and e2b: "\<not> isTruthy (E2B_ENABLED h)"
  have "routeOf h input (fst st) = ImportsNeedE2B"
    using js res e2b by (simp add: routeOf_def hasImports_def)
  then show "executeFunction (h\<lparr>compileScript := c, runScript := r\<rparr>) input = failure h [] importsRequireE2B"
    using res
    by (simp add: executeFunction_def codeResolution_vm routeOf_vm catchBlock_vm
        catchBlock_newError importsRequireE2B_def failure_def cleanStdout_def endsWith_def)
next
  fix st c r
  assume js: "languageOf input = JavaScript"
    and res: "codeResolution h input = Inr st \<and>
        (test importRegExp None (fst st) \<or> test requireRegExp None (fst st))"
    and e2b: "isTruthy (E2B_ENABLED h) \<and> \<not> isCustomToolOf input"
  have "routeOf h input (fst st) = UseHttpRoute"
    using js res e2b by (simp add: routeOf_def hasImports_def)
  then show "executeFunction (h\<lparr>compileScript := c, runScript := r\<rparr>) input = Throws (newError ''__USE_HTTP_ROUTE__'')"
    using res
    by (simp add: executeFunction_def codeResolution_vm routeOf_vm catchBlock_vm catchBlock_signal)
qed

theorem import_request_witness:
  "languageOf importRequest = JavaScript
   \<and> codeResolution (exampleHost (Some ''1'') compiles idleVm) importRequest = Inr (''import fs from 'fs';'', [])
   \<and> test importRegExp None ''import fs from 'fs';''
   \<and> isTruthy (E2B_ENABLED (exampleHost (Some ''1'') compiles idleVm))
   \<and> \<not> isCustomToolOf importRequest
   \<and> executeFunction (exampleHost (Some ''1'') compiles idleVm) importRequest =
       Throws (newError ''__USE_HTTP_ROUTE__'')"
proof -
  let ?h = "exampleHost (Some ''1'') compiles idleVm"
  have l: "languageOf importRequest = JavaScript"
    by (simp add: importRequest_def request_def validLanguage_javascript)
  have r: "codeResolution ?h importRequest = Inr (''import fs from 'fs';'', [])"
    by (simp add: importRequest_def resolve_defs input_defs regExp_defs charClass_defs)
  have t: "test importRegExp None ''import fs from 'fs';''"
    by (simp add: regExp_defs charClass_defs)
  have e: "isTruthy (E2B_ENABLED ?h)" "\<not> isCustomToolOf importRequest"
    by (simp_all add: exampleHost_def isTruthy_def importRequest_def input_defs)
  have same: "?h\<lparr>compileScript := compiles, runScript := idleVm\<rparr> = ?h"
    by (simp add: exampleHost_def)
  have "test importRegExp None (fst (''import fs from 'fs';'', [] :: (string \<times> jsval) list))"
    using t by simp
  with import_request [of importRequest ?h] l r e
  have "executeFunction (?h\<lparr>compileScript := compiles, runScript := idleVm\<rparr>) importRequest =
       Throws (newError ''__USE_HTTP_ROUTE__'')"
    by blast
  with l r t e same show ?thesis by simp
qed

text \<open>
  C2 as stated fails: with E2B not enabled, the request with the code
  \<^verbatim>\<open>import fs from 'fs';\<close> returns a failure output and throws nothing.
\<close>

theorem import_without_E2B:
  "executeFunction (exampleHost None compiles idleVm) importRequest =
     Returns \<lparr>success = False,
       output' = \<lparr>result = JNull, stdout = [], executionTime = 7\<rparr>,
       error = Some (JStr importsRequireE2B)\<rparr>"
  by (simp add: eval_defs importRequest_def importsRequireE2B_def)

subsection \<open>Thrown values\<close>

text \<open>
  C3 at a failing input. The script \<^verbatim>\<open>throw null\<close> makes the wrapper log
  \<^verbatim>\<open>null\<close> and throw it again; the \<^verbatim>\<open>catch\<close> block then reads
  \<^verbatim>\<open>error.message\<close> of \<^verbatim>\<open>null\<close>, and the \<^verbatim>\<open>TypeError\<close> of that read leaves
  the function: no failure output is returned, and the captured output is lost.
\<close>

theorem thrown_null_escapes:
  "executeFunction (exampleHost None compiles throwsNull) (request ''throw null'') =
     Throws (newError ''Cannot read properties of null (reading 'message')'')"
  by (simp add: eval_defs throwsNull_def)

text \<open>
  What the \<^verbatim>\<open>catch\<close> block does with any other value a script throws, unless its message
  is that of the signal.
\<close>

lemma thrown_error_caught:
  assumes "codeResolution h input = Inr st" and "routeOf h input (fst st) = LocalVm"
    and "compileScript h (fullScript (fst st)) = None"
    and "runScript h (fullScript (fst st)) (buildContext (snd st)) (timeoutOf h input) = (calls, Raised e)"
    and "e \<noteq> JUndefined" and "e \<noteq> JNull" and "get h e ''message'' \<noteq> JStr ''__USE_HTTP_ROUTE__''"
  shows "executeFunction h input =
     Returns \<lparr>success = False,
       output' = \<lparr>result = JNull, stdout = cleanStdout (foldl (consoleWrite h) [] calls),
                 executionTime = endTime h - startTime h\<rparr>,
       error = Some (orElse (get h e ''message'') (JStr ''Function execution failed''))\<rparr>"
  using assms by (simp add: executeFunction_def runLocally_def catchBlock_def getMember_def)

text \<open>
  C9. The \<^verbatim>\<open>catch\<close> block throws the caught value again exactly when its message is
  the string \<^verbatim>\<open>__USE_HTTP_ROUTE__\<close>; the delegation is the error with that message; and
  so a value with that message thrown by the user's script leaves the function as it is,
  the same outcome as a delegation when it is an error with that message alone.
\<close>

theorem signal_by_message:
  "(\<forall>out err m. getMember h err ''message'' = Inr m \<longrightarrow>
      (catchBlock h out err = Throws err) = (m = JStr ''__USE_HTTP_ROUTE__''))
   \<and> (\<forall>st. codeResolution h input = Inr st \<and> routeOf h input (fst st) = UseHttpRoute \<longrightarrow>
        executeFunction h input = Throws (newError ''__USE_HTTP_ROUTE__''))
   \<and> (\<forall>st calls e. codeResolution h input = Inr st \<and> routeOf h input (fst st) = LocalVm
        \<and> compileScript h (fullScript (fst st)) = None
        \<and> runScript h (fullScript (fst st)) (buildContext (snd st)) (timeoutOf h input) = (calls, Raised e)
        \<and> getMember h e ''message'' = Inr (JStr ''__USE_HTTP_ROUTE__'') \<longrightarrow>
        executeFunction h input = Throws e)"
  by (auto simp: catchBlock_def executeFunction_def runLocally_def getMember_def newError_def)

theorem signal_by_message_witness:
  "codeResolution (exampleHost None compiles throwsSignal) (request userThrow) = Inr (userThrow, [])
   \<and> routeOf (exampleHost None compiles throwsSignal) (request userThrow) userThrow = LocalVm
   \<and> getMember (exampleHost None compiles throwsSignal) (newError ''__USE_HTTP_ROUTE__'') ''message''
       = Inr (JStr ''__USE_HTTP_ROUTE__'')
   \<and> executeFunction (exampleHost None compiles throwsSignal) (request userThrow) =
       Throws (newError ''__USE_HTTP_ROUTE__'')
   \<and> executeFunction (exampleHost (Some ''true'') compiles idleVm) pythonRequest =
       Throws (newError ''__USE_HTTP_ROUTE__'')"
proof -
  let ?h = "exampleHost None compiles throwsSignal"
  let ?g = "exampleHost (Some ''true'') compiles idleVm"
  have r: "codeResolution ?h (request userThrow) = Inr (userThrow, [])"
    by (simp add: resolve_defs input_defs regExp_defs charClass_defs userThrow_def)
  have l: "routeOf ?h (request userThrow) userThrow = LocalVm"
    by (simp add: routeOf_def hasImports_def input_defs regExp_defs charClass_defs userThrow_def
        exampleHost_def isTruthy_def DEFAULT_CODE_LANGUAGE_def)
  have c: "compileScript ?h (fullScript userThrow) = None"
    by (simp add: exampleHost_def compiles_def)
  have v: "runScript ?h (fullScript userThrow) (buildContext []) (timeoutOf ?h (request userThrow))
      = ([ConsoleError [newError ''__USE_HTTP_ROUTE__'']], Raised (newError ''__USE_HTTP_ROUTE__''))"
    by (simp add: exampleHost_def throwsSignal_def)
  have m: "getMember ?h (newError ''__USE_HTTP_ROUTE__'') ''message'' = Inr (JStr ''__USE_HTTP_ROUTE__'')"
    by (simp add: getMember_def newError_def)
  have r': "codeResolution ?g pythonRequest = Inr (''print(1)'', [])"
    by (simp add: pythonRequest_def resolve_defs input_defs regExp_defs charClass_defs)
  have l': "routeOf ?g pythonRequest ''print(1)'' = UseHttpRoute"
    by (simp add: routeOf_def hasImports_def input_defs pythonRequest_def validLanguage_def
        exampleHost_def isTruthy_def)
  have 1: "executeFunction ?h (request userThrow) = Throws (newError ''__USE_HTTP_ROUTE__'')"
    using signal_by_message [of ?h "request userThrow"] r l c v m
    by (metis fst_conv snd_conv)
  have 2: "executeFunction ?g pythonRequest = Throws (newError ''__USE_HTTP_ROUTE__'')"
    using signal_by_message [of ?g pythonRequest] r' l'
    by (metis fst_conv)
  from r l m 1 2 show ?thesis by simp
qed

subsection \<open>Local execution\<close>

lemma resolveCodeVariables_referenceFree:
  "referenceFree src \<Longrightarrow> resolveCodeVariables h src ps env bd bnm wv = Inr (src, [])"
  by (simp add: referenceFree_def resolveCodeVariables_def resolveWorkflowVariables_def
      resolveEnvironmentVariables_def resolveTagVariables_def)











subsection \<open>Resolution of code without references\<close>

text \<open>
  C8. On a code without references the resolution returns the code as it is and no
  binding; so resolving a resolved code that has no reference left changes nothing.
\<close>

theorem resolution_identity:
  "(referenceFree src \<longrightarrow> resolveCodeVariables h src ps env bd bnm wv = Inr (src, []))
   \<and> (\<forall>src' ctx. resolveCodeVariables h src ps env bd bnm wv = Inr (src', ctx) \<and> referenceFree src'
         \<longrightarrow> resolveCodeVariables h src' ps env bd bnm wv = Inr (src', []))"
  by (simp add: resolveCodeVariables_referenceFree)

theorem resolution_identity_witness:
  "referenceFree ''return 1+1;''
   \<and> resolveCodeVariables (exampleHost None compiles idleVm) ''return 1+1;'' [] [] [] [] [] = Inr (''return 1+1;'', [])
   \<and> resolveCodeVariables (exampleHost None compiles idleVm) resolvable [] [(''FOO'', ''bar'')] [] []
        [(''v1'', JObj PlainObject [(''name'', JStr ''n''), (''type'', JStr ''number''), (''value'', JStr ''42'')])]
       = Inr (''return __var_FOO + __variable_n;'', [(''__variable_n'', JNum (Num 42)), (''__var_FOO'', JStr ''bar'')])
   \<and> referenceFree ''return __var_FOO + __variable_n;''
   \<and> resolveCodeVariables (exampleHost None compiles idleVm) ''return __var_FOO + __variable_n;'' [] [(''FOO'', ''bar'')] [] []
        [(''v1'', JObj PlainObject [(''name'', JStr ''n''), (''type'', JStr ''number''), (''value'', JStr ''42'')])]
       = Inr (''return __var_FOO + __variable_n;'', [])"
proof -
  let ?h = "exampleHost None compiles idleVm"
  let ?wv = "[(''v1'', JObj PlainObject [(''name'', JStr ''n''), (''type'', JStr ''number''), (''value'', JStr ''42'')])]"
  have f1: "referenceFree ''return 1+1;''"
    by (simp add: referenceFree_def regExp_defs charClass_defs)
  have f2: "referenceFree ''return __var_FOO + __variable_n;''"
    by (simp add: referenceFree_def regExp_defs charClass_defs)
  have r: "resolveCodeVariables ?h resolvable [] [(''FOO'', ''bar'')] [] [] ?wv
       = Inr (''return __var_FOO + __variable_n;'', [(''__variable_n'', JNum (Num 42)), (''__var_FOO'', JStr ''bar'')])"
    by (simp add: resolvable_def eval_defs coerce_def)
  from resolution_identity [of "''return 1+1;''" ?h "[]" "[]" "[]" "[]" "[]"] f1
  have 1: "resolveCodeVariables ?h ''return 1+1;'' [] [] [] [] [] = Inr (''return 1+1;'', [])"
    by blast
  from resolution_identity [of resolvable ?h "[]" "[(''FOO'', ''bar'')]" "[]" "[]" ?wv] r f2
  have 2: "resolveCodeVariables ?h ''return __var_FOO + __variable_n;'' [] [(''FOO'', ''bar'')] [] [] ?wv
       = Inr (''return __var_FOO + __variable_n;'', [])"
    by blast
  from f1 f2 r 1 2 show ?thesis by simp
qed

subsection \<open>The parameter \<^verbatim>\<open>_context\<close>\<close>

lemma split_not_Nil [simp]: "split sep s \<noteq> []"
  by (induction s) (auto split: list.splits)

lemma get_map_of_cong:
  "map_of ps = map_of ps' \<Longrightarrow> get h (JObj k ps) key = get h (JObj k ps') key"
  by simp










subsection \<open>Literal patterns\<close>

lemma rxMatch_lit_append:
  "rxMatch (lit p @ r) prev s =
     (if prefix p s
      then map_option (\<lambda>n. length p + n)
             (rxMatch r (if p = [] then prev else Some (last p)) (drop (length p) s))
      else None)"
proof (induction p arbitrary: prev s)
  case Nil
  then show ?case by (cases "rxMatch r prev s") (simp_all add: lit_def)
next
  case (Cons x p)
  show ?case
  proof (cases s)
    case Nil
    then show ?thesis by (simp add: lit_def)
  next
    case (Cons c cs)
    have "rxMatch (lit (x # p) @ r) prev (c # cs) =
        (if c = x then map_option Suc (rxMatch (lit p @ r) (Some c) cs) else None)"
      by (simp add: lit_def)
    then show ?thesis
      using Cons.IH [of "Some c" cs] Cons
      by (auto simp: option.map_comp comp_def)
  qed
qed

lemma rxMatch_lit:
  "rxMatch (lit p) prev s = (if prefix p s then Some (length p) else None)"
  using rxMatch_lit_append [of p "[]" prev s] by simp

lemma RegExp_escapeRegExp: "RegExp (escapeRegExp m) = lit m"
proof (induction m)
  case Nil
  then show ?case by (simp add: lit_def)
next
  case (Cons c cs)
  show ?case
  proof (cases "isRegExpSpecial c")
    case True
    then show ?thesis using Cons by (simp add: lit_def)
  next
    case False
    then have nb: "c \<noteq> CHR 0x5C" by (auto simp: isRegExpSpecial_def)
    show ?thesis
    proof (cases "escapeRegExp cs")
      case Nil
      then show ?thesis using False Cons by (simp add: lit_def)
    next
      case (Cons d ds)
      then show ?thesis using False nb Cons.IH by (simp add: lit_def)
    qed
  qed
qed

lemma replaceEvery_Nil: "m \<noteq> [] \<Longrightarrow> replaceEvery m rep [] = []"
  by (simp add: replaceEvery_def RegExp_escapeRegExp rxMatch_lit)

lemma replace_lit_Cons:
  assumes "m \<noteq> []"
  shows "replace (lit m) rep prev (c # cs) =
     (if prefix m (c # cs) then rep @ replace (lit m) rep (Some (last m)) (drop (length m - 1) cs)
      else c # replace (lit m) rep (Some c) cs)"
proof (cases "prefix m (c # cs)")
  case False
  then show ?thesis by (simp add: rxMatch_lit)
next
  case True
  then obtain t where t: "c # cs = m @ t" by (auto simp: prefix_def)
  with assms obtain m' where m': "m = c # m'" by (cases m) auto
  with t have cs: "cs = m' @ t" by simp
  have "last (c # take (length m - 1) cs) = last m"
    using m' cs by simp
  with True assms show ?thesis
    by (simp add: rxMatch_lit)
qed

text \<open>A text without the pattern is left as it is.\<close>

lemma replace_lit_absent:
  "m \<noteq> [] \<Longrightarrow> \<not> sublist m s \<Longrightarrow> replace (lit m) rep prev s = s"
proof (induction s arbitrary: prev)
  case Nil
  then show ?case by (simp add: rxMatch_lit)
next
  case (Cons c cs)
  from Cons.prems have "\<not> prefix m (c # cs)" "\<not> sublist m cs"
    by (auto simp: sublist_Cons_right)
  with Cons show ?case by (simp add: replace_lit_Cons del: replace.simps)
qed

text \<open>
  The first occurrence of the pattern is replaced, and the search goes on behind it.
\<close>

lemma replace_lit_first:
  assumes "m \<noteq> []" and "\<not> sublist m (u @ butlast m)"
  shows "replace (lit m) rep prev (u @ m @ v) = u @ rep @ replace (lit m) rep (Some (last m)) v"
  using assms(2)
proof (induction u arbitrary: prev)
  case Nil
  from assms(1) obtain c m' where m: "m = c # m'" by (cases m) auto
  have "replace (lit m) rep prev (c # m' @ v) = rep @ replace (lit m) rep (Some (last m)) v"
    using assms(1) by (subst replace_lit_Cons) (simp_all add: m)
  then show ?case by (simp add: m)
next
  case (Cons c u)
  have np: "\<not> prefix m (c # u @ m @ v)"
  proof
    assume p: "prefix m (c # u @ m @ v)"
    have "length m \<le> length ((c # u) @ butlast m)" using assms(1) by simp
    moreover have "prefix ((c # u) @ butlast m) (c # u @ m @ v)"
      using assms(1) by (metis Cons_eq_appendI append.assoc append_butlast_last_id prefixI same_prefix_prefix)
    ultimately have "prefix m ((c # u) @ butlast m)"
      using p by (meson prefix_length_prefix)
    then show False using Cons.prems by auto
  qed
  from Cons.prems have "\<not> sublist m (u @ butlast m)"
    by (auto simp: sublist_Cons_right)
  with Cons.IH np assms(1) show ?case
    by (simp add: replace_lit_Cons del: replace.simps)
qed

lemma replaceEvery_absent: "m \<noteq> [] \<Longrightarrow> \<not> sublist m s \<Longrightarrow> replaceEvery m rep s = s"
  by (simp add: replaceEvery_def RegExp_escapeRegExp replace_lit_absent)

lemma replaceEvery_first:
  "m \<noteq> [] \<Longrightarrow> \<not> sublist m (u @ butlast m) \<Longrightarrow> \<not> sublist m v \<Longrightarrow>
   replaceEvery m rep (u @ m @ v) = u @ rep @ v"
  by (simp add: replaceEvery_def RegExp_escapeRegExp replace_lit_first replace_lit_absent)

subsection \<open>Bindings of a pass\<close>

lemma bindAll_Nil [simp]: "bindAll b ctx [] = ctx"
  by (simp add: bindAll_def)

lemma bindAll_Cons [simp]:
  "bindAll b ctx (m # ms) =
     bindAll b (case b m of None \<Rightarrow> ctx | Some (k, v) \<Rightarrow> AList.update k v ctx) ms"
  by (simp add: bindAll_def)

lemma bindAll_append: "bindAll b ctx (ms1 @ ms2) = bindAll b (bindAll b ctx ms1) ms2"
  by (simp add: bindAll_def)

lemma bindAll_unbound:
  "\<forall>m \<in> set ms. \<forall>v. b m \<noteq> Some (k, v) \<Longrightarrow> map_of (bindAll b ctx ms) k = map_of ctx k"
proof (induction ms arbitrary: ctx)
  case Nil
  then show ?case by simp
next
  case (Cons m ms)
  show ?case
  proof (cases "b m")
    case None
    with Cons show ?thesis by simp
  next
    case (Some kv)
    obtain k' v' where kv: "kv = (k', v')" by (cases kv)
    with Some Cons.prems have "k' \<noteq> k" by auto
    with Cons Some kv show ?thesis by (simp add: update_conv')
  qed
qed

lemma bindAll_last:
  assumes "b m = Some (k, v)" and "\<forall>m' \<in> set later. \<forall>v'. b m' \<noteq> Some (k, v')"
  shows "map_of (bindAll b ctx (earlier @ m # later)) k = Some v"
  using assms by (simp add: bindAll_append bindAll_unbound update_conv')

subsection \<open>Template references\<close>

lemma foldl_envStep:
  "foldl (envStep h ps env) (c, x) ms =
     (foldl (\<lambda>c m. replaceEvery m (safeVarName ''__var_'' (trim (slice 2 2 m))) c) c ms,
      bindAll (envBinding h ps env) x ms)"
  by (induction ms arbitrary: c x) (simp_all add: envStep_def envBinding_def Let_def)

lemma resolveEnvironmentVariables_eq:
  "resolveEnvironmentVariables h src ps env ctx =
     (foldl (\<lambda>c m. replaceEvery m (safeVarName ''__var_'' (trim (slice 2 2 m))) c) src
        (matchAll envVarRegExp None src),
      bindAll (envBinding h ps env) ctx (matchAll envVarRegExp None src))"
  by (simp add: resolveEnvironmentVariables_def foldl_envStep)

lemma get_stringRecord:
  "get h (stringRecord env) key =
     (case map_of env key of Some v \<Rightarrow> JStr v | None \<Rightarrow> inherited h (OfObject PlainObject) key)"
  by (simp add: stringRecord_def map_of_map split: option.splits)

lemma safeVarName_not_Nil: "pre \<noteq> [] \<Longrightarrow> safeVarName pre name \<noteq> []"
  by (simp add: safeVarName_def)

text \<open>
  C5 (as amended). For a template reference \<open>m\<close> that the second pass finds (by
  \<open>envVar_match_shape\<close> it is \<^verbatim>\<open>{{\<close>, a name and \<^verbatim>\<open>}}\<close>), with the name
  \<open>varName\<close> between its braces, trimmed: a binding of the identifier
  \<^verbatim>\<open>__var_\<close> plus the sanitized name is always made, and the returned mapping has the
  value of the reference under it unless a later reference has the same identifier (the
  later assignment then stands). The references are substituted one after the other in
  the order found, each at every occurrence of its text in the code as it then is, by an
  identifier that is never empty. The value is \<^verbatim>\<open>envVars[varName]\<close> when that is
  truthy, so a non-empty entry of \<^verbatim>\<open>envVars\<close> is bound as it is; else
  \<^verbatim>\<open>params[varName]\<close> when that is truthy; else the empty string.
\<close>

theorem template_reference:
  "(matchAll envVarRegExp None src = earlier @ m # later \<and> varName = trim (slice 2 2 m) \<and>
      (\<forall>m' \<in> set later. safeVarName ''__var_'' (trim (slice 2 2 m')) \<noteq> safeVarName ''__var_'' varName)
      \<longrightarrow> map_of (snd (resolveEnvironmentVariables h src ps env ctx)) (safeVarName ''__var_'' varName)
            = Some (varValueOf h ps env varName))
   \<and> fst (resolveEnvironmentVariables h src ps env ctx) =
       foldl (\<lambda>c m. replaceEvery m (safeVarName ''__var_'' (trim (slice 2 2 m))) c) src
         (matchAll envVarRegExp None src)
   \<and> safeVarName ''__var_'' varName \<noteq> []
   \<and> (\<forall>v. map_of env varName = Some v \<and> v \<noteq> [] \<longrightarrow> varValueOf h ps env varName = JStr v)
   \<and> (\<forall>p. \<not> truthy (get h (stringRecord env) varName) \<and> map_of ps varName = Some p \<and> truthy p
         \<longrightarrow> varValueOf h ps env varName = p)
   \<and> (\<not> truthy (get h (stringRecord env) varName) \<and> \<not> truthy (get h (JObj PlainObject ps) varName)
         \<longrightarrow> varValueOf h ps env varName = JStr [])"
proof (intro conjI impI allI)
  assume a: "matchAll envVarRegExp None src = earlier @ m # later \<and> varName = trim (slice 2 2 m) \<and>
      (\<forall>m' \<in> set later. safeVarName ''__var_'' (trim (slice 2 2 m')) \<noteq> safeVarName ''__var_'' varName)"
  then have ms: "matchAll envVarRegExp None src = earlier @ m # later" by simp
  have "map_of (bindAll (envBinding h ps env) ctx (earlier @ m # later)) (safeVarName ''__var_'' varName)
      = Some (varValueOf h ps env varName)"
    using a by (intro bindAll_last) (auto simp: envBinding_def)
  then show "map_of (snd (resolveEnvironmentVariables h src ps env ctx)) (safeVarName ''__var_'' varName)
            = Some (varValueOf h ps env varName)"
    unfolding resolveEnvironmentVariables_eq ms snd_conv .
next
  show "fst (resolveEnvironmentVariables h src ps env ctx) =
       foldl (\<lambda>c m. replaceEvery m (safeVarName ''__var_'' (trim (slice 2 2 m))) c) src
         (matchAll envVarRegExp None src)"
    by (simp add: resolveEnvironmentVariables_eq)
next
  show "safeVarName ''__var_'' varName \<noteq> []" by (simp add: safeVarName_def)
next
  fix v assume "map_of env varName = Some v \<and> v \<noteq> []"
  then show "varValueOf h ps env varName = JStr v"
    by (simp add: varValueOf_def get_stringRecord orElse_def)
next
  fix p assume "\<not> truthy (get h (stringRecord env) varName) \<and> map_of ps varName = Some p \<and> truthy p"
  then show "varValueOf h ps env varName = p"
    by (simp add: varValueOf_def orElse_def)
next
  assume "\<not> truthy (get h (stringRecord env) varName) \<and> \<not> truthy (get h (JObj PlainObject ps) varName)"
  then show "varValueOf h ps env varName = JStr []"
    by (simp add: varValueOf_def orElse_def)
qed

theorem template_reference_witness:
  "matchAll envVarRegExp None ''f({{FOO}}, {{ N }}, {{FOO}})'' = [''{{FOO}}'', ''{{ N }}''] @ ''{{FOO}}'' # []
   \<and> ''FOO'' = trim (slice 2 2 ''{{FOO}}'')
   \<and> map_of [(''FOO'', ''bar'')] ''FOO'' = Some ''bar''
   \<and> map_of (snd (resolveEnvironmentVariables (exampleHost None compiles idleVm) ''f({{FOO}}, {{ N }}, {{FOO}})''
        [(''N'', JNum (Num 7))] [(''FOO'', ''bar'')] [])) (safeVarName ''__var_'' ''FOO'') = Some (JStr ''bar'')
   \<and> resolveEnvironmentVariables (exampleHost None compiles idleVm) ''f({{FOO}}, {{ N }}, {{FOO}})''
        [(''N'', JNum (Num 7))] [(''FOO'', ''bar'')] [] =
       (''f(__var_FOO, __var_N, __var_FOO)'', [(''__var_FOO'', JStr ''bar''), (''__var_N'', JNum (Num 7))])"
proof -
  let ?h = "exampleHost None compiles idleVm"
  let ?src = "''f({{FOO}}, {{ N }}, {{FOO}})''"
  have ms: "matchAll envVarRegExp None ?src = [''{{FOO}}'', ''{{ N }}''] @ ''{{FOO}}'' # []"
    by (simp add: regExp_defs charClass_defs)
  have n: "''FOO'' = trim (slice 2 2 ''{{FOO}}'')"
    by (simp add: trim_def slice_def charClass_defs)
  have e: "map_of [(''FOO'', ''bar'')] ''FOO'' = Some ''bar''" by simp
  have all: "resolveEnvironmentVariables ?h ?src [(''N'', JNum (Num 7))] [(''FOO'', ''bar'')] [] =
       (''f(__var_FOO, __var_N, __var_FOO)'', [(''__var_FOO'', JStr ''bar''), (''__var_N'', JNum (Num 7))])"
    by (simp add: eval_defs)
  have v: "varValueOf ?h [(''N'', JNum (Num 7))] [(''FOO'', ''bar'')] ''FOO'' = JStr ''bar''"
    using template_reference [where env = "[(''FOO'', ''bar'')]" and varName = "''FOO''" and h = ?h
        and ps = "[(''N'', JNum (Num 7))]"] e
    by blast
  have "map_of (snd (resolveEnvironmentVariables ?h ?src [(''N'', JNum (Num 7))] [(''FOO'', ''bar'')] []))
      (safeVarName ''__var_'' ''FOO'') = Some (varValueOf ?h [(''N'', JNum (Num 7))] [(''FOO'', ''bar'')] ''FOO'')"
    using template_reference [where src = ?src and earlier = "[''{{FOO}}'', ''{{ N }}'']" and m = "''{{FOO}}''"
        and later = "[]" and varName = "''FOO''" and h = ?h and ps = "[(''N'', JNum (Num 7))]"
        and env = "[(''FOO'', ''bar'')]" and ctx = "[]"] ms n
    by simp
  with v have b: "map_of (snd (resolveEnvironmentVariables ?h ?src [(''N'', JNum (Num 7))] [(''FOO'', ''bar'')] []))
      (safeVarName ''__var_'' ''FOO'') = Some (JStr ''bar'')"
    by simp
  show ?thesis
    by (intro conjI) (rule ms, rule n, rule e, rule b, rule all)
qed

text \<open>
  C5 as stated fails. A parameter \<^verbatim>\<open>N\<close> with the value 0 is present and the
  binding is the empty string; of two references with the same identifier the value of
  the later is bound for both; and where an earlier reference is a part of a later one,
  the later one is not substituted by its identifier.
\<close>

theorem template_reference_differs:
  "resolveEnvironmentVariables (exampleHost None compiles idleVm) ''{{N}}'' [(''N'', JNum (Num 0))] [] [] =
     (''__var_N'', [(''__var_N'', JStr [])])
   \<and> resolveEnvironmentVariables (exampleHost None compiles idleVm) ''{{a-b}} + {{a_b}}'' []
       [(''a-b'', ''1''), (''a_b'', ''2'')] [] =
     (''__var_a_b + __var_a_b'', [(''__var_a_b'', JStr ''2'')])
   \<and> matchAll envVarRegExp None ''{{b}}{{a{{b}}'' = [''{{b}}'', ''{{a{{b}}'']
   \<and> resolveEnvironmentVariables (exampleHost None compiles idleVm) ''{{b}}{{a{{b}}'' [] [] [] =
     (''__var_b{{a__var_b'', [(''__var_b'', JStr []), (''__var_a__b'', JStr [])])"
  by (simp add: eval_defs)

subsection \<open>Tag references\<close>

lemma tagStep_eq:
  "tagStep h ps bd bnm st m =
     (case tagBinding h ps bd bnm m of
        None \<Rightarrow> st
      | Some (k, v) \<Rightarrow> (replaceEvery m k (fst st), AList.update k v (snd st)))"
  by (simp add: tagStep_def tagBinding_def Let_def)

lemma foldl_tagStep:
  "foldl (tagStep h ps bd bnm) (c, x) ms =
     (foldl (\<lambda>c m. case tagBinding h ps bd bnm m of None \<Rightarrow> c | Some (k, v) \<Rightarrow> replaceEvery m k c) c ms,
      bindAll (tagBinding h ps bd bnm) x ms)"
proof (induction ms arbitrary: c x)
  case Nil
  then show ?case by simp
next
  case (Cons m ms)
  then show ?case
    by (cases "tagBinding h ps bd bnm m") (auto simp: tagStep_eq)
qed

lemma resolveTagVariables_eq:
  "resolveTagVariables h src ps bd bnm ctx =
     (foldl (\<lambda>c m. case tagBinding h ps bd bnm m of None \<Rightarrow> c | Some (k, v) \<Rightarrow> replaceEvery m k c) src
        (matchAll tagRegExp None src),
      bindAll (tagBinding h ps bd bnm) ctx (matchAll tagRegExp None src))"
  by (simp add: resolveTagVariables_def foldl_tagStep)

lemma tagValueOf_block:
  assumes "\<not> truthy (getNestedValue h (JObj PlainObject ps) tagName)"
    and "\<not> truthy (getNestedValue h (JObj PlainObject bd) tagName)"
    and "includesChar tagName CHR ''.''"
    and "map_of bnm (toLowerCase (hd (split CHR ''.'' tagName))) = Some blockId" and "blockId \<noteq> []"
    and "map_of bd blockId = Some block"
  shows "tagValueOf h ps bd bnm tagName =
     getNestedValue h block (join ''.'' (tl (split CHR ''.'' tagName)))"
  using assms by (simp add: tagValueOf_def orElse_def get_stringRecord Let_def)

text \<open>
  C6 (as amended). Let the third pass find the tag reference \<open>m\<close> with the name
  \<open>tagName\<close> (by \<open>tag_match_shape\<close> it is \<^verbatim>\<open><\<close>, the name and \<^verbatim>\<open>>\<close>), let the lookups of the whole name in the parameters and in the block data
  give nothing truthy, let the name have a dot, and let its first segment in lower case
  be mapped by \<^verbatim>\<open>blockNameMapping\<close> to a non-empty id that the block data has. Then
  the value of the tag is the nested value \<open>v\<close> at the rest of the name in that block.
  When \<open>v\<close> is neither \<^verbatim>\<open>undefined\<close> nor the empty string, the step replaces every
  occurrence of \<open>m\<close> in the code as it then is by the identifier \<^verbatim>\<open>__tag_\<close> plus the
  sanitized name and binds it to \<open>v\<close>, and the returned mapping has \<open>v\<close> under it
  unless a later reference has the same identifier. A step for a tag whose value is
  \<^verbatim>\<open>undefined\<close> or the empty string changes neither the code nor the bindings. The
  code the pass returns is the result of these steps in the order of the matches.
\<close>

theorem tag_reference:
  "(matchAll tagRegExp None src = earlier @ m # later \<and> tagName = trim (slice 1 1 m)
    \<and> \<not> truthy (getNestedValue h (JObj PlainObject ps) tagName)
    \<and> \<not> truthy (getNestedValue h (JObj PlainObject bd) tagName)
    \<and> includesChar tagName CHR ''.''
    \<and> map_of bnm (toLowerCase (hd (split CHR ''.'' tagName))) = Some blockId \<and> blockId \<noteq> []
    \<and> map_of bd blockId = Some block
    \<and> v = getNestedValue h block (join ''.'' (tl (split CHR ''.'' tagName)))
    \<longrightarrow> tagValueOf h ps bd bnm tagName = v
      \<and> (v \<noteq> JUndefined \<and> v \<noteq> JStr [] \<longrightarrow>
           tagStep h ps bd bnm st m =
             (replaceEvery m (safeVarName ''__tag_'' tagName) (fst st),
              AList.update (safeVarName ''__tag_'' tagName) v (snd st))
           \<and> ((\<forall>m' \<in> set later. safeVarName ''__tag_'' (trim (slice 1 1 m')) \<noteq> safeVarName ''__tag_'' tagName)
                \<longrightarrow> map_of (snd (resolveTagVariables h src ps bd bnm ctx)) (safeVarName ''__tag_'' tagName)
                      = Some v)))
   \<and> (tagValueOf h ps bd bnm (trim (slice 1 1 m)) = JUndefined
        \<or> tagValueOf h ps bd bnm (trim (slice 1 1 m)) = JStr []
       \<longrightarrow> tagStep h ps bd bnm st m = st)
   \<and> fst (resolveTagVariables h src ps bd bnm ctx) =
       foldl (\<lambda>c m. let tagName = trim (slice 1 1 m); tagValue = tagValueOf h ps bd bnm tagName
                    in if tagValue \<noteq> JUndefined \<and> tagValue \<noteq> JStr []
                       then replaceEvery m (safeVarName ''__tag_'' tagName) c else c)
         src (matchAll tagRegExp None src)"
proof (intro conjI impI)
  assume a: "matchAll tagRegExp None src = earlier @ m # later \<and> tagName = trim (slice 1 1 m)
    \<and> \<not> truthy (getNestedValue h (JObj PlainObject ps) tagName)
    \<and> \<not> truthy (getNestedValue h (JObj PlainObject bd) tagName)
    \<and> includesChar tagName CHR ''.''
    \<and> map_of bnm (toLowerCase (hd (split CHR ''.'' tagName))) = Some blockId \<and> blockId \<noteq> []
    \<and> map_of bd blockId = Some block
    \<and> v = getNestedValue h block (join ''.'' (tl (split CHR ''.'' tagName)))"
  then show tv: "tagValueOf h ps bd bnm tagName = v"
    using tagValueOf_block [of h ps tagName bd bnm blockId block] by blast
  assume v: "v \<noteq> JUndefined \<and> v \<noteq> JStr []"
  from a tv v have b: "tagBinding h ps bd bnm m = Some (safeVarName ''__tag_'' tagName, v)"
    by (simp add: tagBinding_def Let_def)
  then show "tagStep h ps bd bnm st m =
             (replaceEvery m (safeVarName ''__tag_'' tagName) (fst st),
              AList.update (safeVarName ''__tag_'' tagName) v (snd st))"
    by (simp add: tagStep_eq)
  assume later: "\<forall>m' \<in> set later. safeVarName ''__tag_'' (trim (slice 1 1 m')) \<noteq> safeVarName ''__tag_'' tagName"
  from a have ms: "matchAll tagRegExp None src = earlier @ m # later" by simp
  have "map_of (bindAll (tagBinding h ps bd bnm) ctx (earlier @ m # later)) (safeVarName ''__tag_'' tagName)
      = Some v"
    using b later by (intro bindAll_last) (auto simp: tagBinding_def Let_def)
  then show "map_of (snd (resolveTagVariables h src ps bd bnm ctx)) (safeVarName ''__tag_'' tagName) = Some v"
    unfolding resolveTagVariables_eq ms snd_conv .
next
  assume "tagValueOf h ps bd bnm (trim (slice 1 1 m)) = JUndefined
        \<or> tagValueOf h ps bd bnm (trim (slice 1 1 m)) = JStr []"
  then show "tagStep h ps bd bnm st m = st"
    by (auto simp: tagStep_def)
next
  have "(\<lambda>c m. case tagBinding h ps bd bnm m of None \<Rightarrow> c | Some (k, v) \<Rightarrow> replaceEvery m k c) =
      (\<lambda>c m. let tagName = trim (slice 1 1 m); tagValue = tagValueOf h ps bd bnm tagName
                    in if tagValue \<noteq> JUndefined \<and> tagValue \<noteq> JStr []
                       then replaceEvery m (safeVarName ''__tag_'' tagName) c else c)"
    by (intro ext) (simp add: tagBinding_def Let_def)
  then show "fst (resolveTagVariables h src ps bd bnm ctx) =
       foldl (\<lambda>c m. let tagName = trim (slice 1 1 m); tagValue = tagValueOf h ps bd bnm tagName
                    in if tagValue \<noteq> JUndefined \<and> tagValue \<noteq> JStr []
                       then replaceEvery m (safeVarName ''__tag_'' tagName) c else c)
         src (matchAll tagRegExp None src)"
    by (simp add: resolveTagVariables_eq)
qed

theorem tag_reference_witness:
  "matchAll tagRegExp None ''return <Blk.x.y> + <blk.empty>;'' = [] @ ''<Blk.x.y>'' # [''<blk.empty>'']
   \<and> ''Blk.x.y'' = trim (slice 1 1 ''<Blk.x.y>'')
   \<and> includesChar ''Blk.x.y'' CHR ''.''
   \<and> map_of [(''blk'', ''id1'')] (toLowerCase (hd (split CHR ''.'' ''Blk.x.y''))) = Some ''id1''
   \<and> JStr ''B'' = getNestedValue (exampleHost None compiles idleVm) (snd (hd exampleBlocks))
        (join ''.'' (tl (split CHR ''.'' ''Blk.x.y'')))
   \<and> map_of (snd (resolveTagVariables (exampleHost None compiles idleVm) ''return <Blk.x.y> + <blk.empty>;''
        [] exampleBlocks [(''blk'', ''id1'')] [])) (safeVarName ''__tag_'' ''Blk.x.y'') = Some (JStr ''B'')
   \<and> tagValueOf (exampleHost None compiles idleVm) [] exampleBlocks [(''blk'', ''id1'')]
        (trim (slice 1 1 ''<blk.empty>'')) = JStr []
   \<and> tagStep (exampleHost None compiles idleVm) [] exampleBlocks [(''blk'', ''id1'')]
        (''return __tag_Blk_x_y + <blk.empty>;'', [(''__tag_Blk_x_y'', JStr ''B'')]) ''<blk.empty>'' =
        (''return __tag_Blk_x_y + <blk.empty>;'', [(''__tag_Blk_x_y'', JStr ''B'')])
   \<and> resolveTagVariables (exampleHost None compiles idleVm) ''return <Blk.x.y> + <blk.empty>;''
        [] exampleBlocks [(''blk'', ''id1'')] [] =
        (''return __tag_Blk_x_y + <blk.empty>;'', [(''__tag_Blk_x_y'', JStr ''B'')])"
proof -
  let ?h = "exampleHost None compiles idleVm"
  let ?src = "''return <Blk.x.y> + <blk.empty>;''"
  let ?bnm = "[(''blk'', ''id1'')]"
  let ?block = "snd (hd exampleBlocks)"
  let ?st = "(''return __tag_Blk_x_y + <blk.empty>;'', [(''__tag_Blk_x_y'', JStr ''B'')])"
  have ms: "matchAll tagRegExp None ?src = [] @ ''<Blk.x.y>'' # [''<blk.empty>'']"
    by (simp add: regExp_defs charClass_defs)
  have n: "''Blk.x.y'' = trim (slice 1 1 ''<Blk.x.y>'')"
    by (simp add: trim_def slice_def charClass_defs)
  have d: "includesChar ''Blk.x.y'' CHR ''.''" by (simp add: includesChar_def)
  have p: "\<not> truthy (getNestedValue ?h (JObj PlainObject []) ''Blk.x.y'')"
    "\<not> truthy (getNestedValue ?h (JObj PlainObject exampleBlocks) ''Blk.x.y'')"
    by (simp_all add: getNestedValue_def exampleBlocks_def exampleHost_def objectPrototype_def)
  have b: "map_of ?bnm (toLowerCase (hd (split CHR ''.'' ''Blk.x.y''))) = Some ''id1''"
    by (simp add: toLowerCase_def upperChars_def lowerChars_def)
  have i: "''id1'' \<noteq> []" "map_of exampleBlocks ''id1'' = Some ?block"
    by (simp_all add: exampleBlocks_def)
  have v: "JStr ''B'' = getNestedValue ?h ?block (join ''.'' (tl (split CHR ''.'' ''Blk.x.y'')))"
    by (simp add: getNestedValue_def exampleBlocks_def)
  have l: "\<forall>m' \<in> set [''<blk.empty>'']. safeVarName ''__tag_'' (trim (slice 1 1 m')) \<noteq>
      safeVarName ''__tag_'' ''Blk.x.y''"
    by (simp add: safeVarName_def sanitize_def trim_def slice_def regExp_defs charClass_defs)
  have e: "tagValueOf ?h [] exampleBlocks ?bnm (trim (slice 1 1 ''<blk.empty>'')) = JStr []"
    by (simp add: eval_defs exampleBlocks_def toLowerCase_def upperChars_def lowerChars_def includesChar_def)
  have all: "resolveTagVariables ?h ?src [] exampleBlocks ?bnm [] = ?st"
    by (simp add: eval_defs exampleBlocks_def toLowerCase_def upperChars_def lowerChars_def includesChar_def)
  note t = tag_reference [where src = ?src and earlier = "[]" and m = "''<Blk.x.y>''"
      and later = "[''<blk.empty>'']" and tagName = "''Blk.x.y''" and h = ?h and ps = "[]"
      and bd = exampleBlocks and bnm = ?bnm and blockId = "''id1''" and block = ?block
      and v = "JStr ''B''" and ctx = "[]"]
  have 1: "map_of (snd (resolveTagVariables ?h ?src [] exampleBlocks ?bnm []))
      (safeVarName ''__tag_'' ''Blk.x.y'') = Some (JStr ''B'')"
    using t ms n d p b i v l by blast
  have 2: "tagStep ?h [] exampleBlocks ?bnm ?st ''<blk.empty>'' = ?st"
    using tag_reference [where m = "''<blk.empty>''" and h = ?h and ps = "[]" and bd = exampleBlocks
        and bnm = ?bnm and st = ?st] e
    by blast
  show ?thesis
    by (intro conjI) (rule ms, rule n, rule d, rule b, rule v, rule 1, rule e, rule 2, rule all)
qed

text \<open>
  C6 as stated fails where two references have the same identifier: both are substituted
  by it, and it is bound to the value of the later one, which is not the nested value at
  the path of the earlier one.
\<close>

theorem tag_reference_collision:
  "resolveTagVariables (exampleHost None compiles idleVm) ''<blk.x_y> + <blk.x.y>'' [] exampleBlocks
     [(''blk'', ''id1'')] [] =
     (''__tag_blk_x_y + __tag_blk_x_y'', [(''__tag_blk_x_y'', JStr ''B'')])
   \<and> getNestedValue (exampleHost None compiles idleVm) (snd (hd exampleBlocks)) ''x_y'' = JStr ''A''"
  by (simp add: eval_defs exampleBlocks_def toLowerCase_def upperChars_def lowerChars_def includesChar_def)

subsection \<open>What the two replacements of names compute\<close>

lemma sanitize_map: "sanitize name = map (\<lambda>c. if isWordChar c then c else CHR ''_'') name"
proof -
  have "replace nonWordRegExp ''_'' prev s = map (\<lambda>c. if isWordChar c then c else CHR ''_'') s" for prev s
    by (induction s arbitrary: prev) (simp_all add: nonWordRegExp_def)
  then show ?thesis by (simp add: sanitize_def)
qed

lemma rxMatch_Star: "rxMatch [Star P] prev s = Some (length (takeWhile P s))"
  by (induction s arbitrary: prev) simp_all

lemma replace_spaces: "replace spacesRegExp [] prev s = filter (\<lambda>c. \<not> isSpace c) s"
proof (induction s arbitrary: prev rule: length_induct)
  case (1 s)
  show ?case
  proof (cases s)
    case Nil
    then show ?thesis by (simp add: spacesRegExp_def)
  next
    case (Cons c cs)
    show ?thesis
    proof (cases "isSpace c")
      case False
      with 1 Cons show ?thesis by (simp add: spacesRegExp_def)
    next
      case True
      have len: "length (dropWhile isSpace cs) < length s"
        using Cons by (simp add: length_dropWhile_le le_imp_less_Suc)
      have f: "filter (\<lambda>c. \<not> isSpace c) cs = filter (\<lambda>c. \<not> isSpace c) (dropWhile isSpace cs)"
        by (induction cs) simp_all
      have "replace spacesRegExp [] prev (c # cs) =
          replace spacesRegExp [] (Some (last (c # takeWhile isSpace cs))) (dropWhile isSpace cs)"
        using True
        by (simp add: spacesRegExp_def rxMatch_Star dropWhile_eq_drop [symmetric] takeWhile_eq_take [symmetric])
      also have "\<dots> = filter (\<lambda>c. \<not> isSpace c) (dropWhile isSpace cs)"
        using 1 len by blast
      finally show ?thesis using True Cons f by simp
    qed
  qed
qed


lemma strippedName_string:
  "map_of ps ''name'' = Some (JStr s) \<Longrightarrow>
   strippedName h (JObj k ps) = Some (filter (\<lambda>c. \<not> isSpace c) s)"
  by (cases "s = []")
    (simp_all add: strippedName_def getMember_def orElse_def replace_spaces del: replace.simps)

subsection \<open>Workflow variable references\<close>

lemma workflowStep_found:
  "find h wv (trim (slice 10 1 m)) = Inr (Some (k, variable)) \<Longrightarrow>
   workflowStep h wv st m =
     Inr (replaceEvery m (safeVarName ''__variable_'' (trim (slice 10 1 m))) (fst st),
          AList.update (safeVarName ''__variable_'' (trim (slice 10 1 m))) (coerce h variable) (snd st))"
  by (simp add: workflowStep_def Let_def)

lemma workflowStep_missing:
  "find h wv (trim (slice 10 1 m)) = Inr None \<Longrightarrow>
   workflowStep h wv st m = Inr (replaceEvery m [] (fst st), snd st)"
  by (simp add: workflowStep_def Let_def)

lemma workflowStep_Inr:
  "workflowStep h wv st m = Inr st' \<Longrightarrow>
   (\<exists>r. find h wv (trim (slice 10 1 m)) = Inr r)
   \<and> fst st' = replaceEvery m (workflowReplacement h wv m) (fst st)
   \<and> snd st' = (case workflowBinding h wv m of None \<Rightarrow> snd st | Some (k, v) \<Rightarrow> AList.update k v (snd st))"
  by (auto simp: workflowStep_def workflowReplacement_def workflowBinding_def Let_def
      split: sum.splits option.splits)

lemma forEach_workflowStep:
  "forEach (workflowStep h wv) st ms = Inr st' \<Longrightarrow>
   (\<forall>m \<in> set ms. \<exists>r. find h wv (trim (slice 10 1 m)) = Inr r)
   \<and> fst st' = foldl (\<lambda>c m. replaceEvery m (workflowReplacement h wv m) c) (fst st) ms
   \<and> snd st' = bindAll (workflowBinding h wv) (snd st) ms"
proof (induction ms arbitrary: st)
  case Nil
  then show ?case by simp
next
  case (Cons m ms)
  from Cons.prems obtain st1 where s1: "workflowStep h wv st m = Inr st1"
    and rest: "forEach (workflowStep h wv) st1 ms = Inr st'"
    by (auto split: sum.splits)
  from workflowStep_Inr [OF s1] Cons.IH [OF rest] show ?case
    by (cases "workflowBinding h wv m") auto
qed

lemma find_first:
  assumes "strippedName h variable = Some n"
    and "\<forall>e \<in> set preceding. \<exists>n'. strippedName h (snd e) = Some n' \<and> n' \<noteq> n"
  shows "find h (preceding @ (k, variable) # following) n = Inr (Some (k, variable))"
  using assms
proof (induction preceding)
  case Nil
  then show ?case
    by (auto simp: strippedName_def split: sum.splits jsval.splits)
next
  case (Cons e preceding)
  obtain k' v' where e: "e = (k', v')" by (cases e)
  from Cons.prems(2) e obtain n' where "strippedName h v' = Some n'" "n' \<noteq> n" by auto
  then show ?case
    using Cons e by (auto simp: strippedName_def split: sum.splits jsval.splits)
qed

lemma coerce_nullish:
  "get h variable ''value'' = JUndefined \<or> get h variable ''value'' = JNull \<Longrightarrow>
   coerce h variable = get h variable ''value''"
  by (auto simp: coerce_def Let_def)

lemma coerce_string:
  "get h variable ''type'' = JStr ''string'' \<Longrightarrow> coerce h variable = get h variable ''value''"
  by (simp add: coerce_def Let_def)

lemma coerce_number:
  "get h variable ''value'' \<noteq> JUndefined \<Longrightarrow> get h variable ''value'' \<noteq> JNull \<Longrightarrow>
   get h variable ''type'' = JStr ''number'' \<Longrightarrow>
   coerce h variable =
     (case toNumber h (get h variable ''value'') of Inr n \<Rightarrow> JNum n | Inl e \<Rightarrow> get h variable ''value'')"
  by (simp add: coerce_def Let_def)

lemma coerce_boolean:
  "get h variable ''value'' \<noteq> JUndefined \<Longrightarrow> get h variable ''value'' \<noteq> JNull \<Longrightarrow>
   get h variable ''type'' = JStr ''boolean'' \<Longrightarrow>
   coerce h variable =
     JBool (get h variable ''value'' = JStr ''true'' \<or> get h variable ''value'' = JBool True)"
  by (simp add: coerce_def Let_def)

lemma coerce_json:
  "get h variable ''value'' \<noteq> JUndefined \<Longrightarrow> get h variable ''value'' \<noteq> JNull \<Longrightarrow>
   get h variable ''type'' = JStr ''json'' \<Longrightarrow>
   coerce h variable =
     (case get h variable ''value'' of
        JStr s \<Rightarrow> (case JSON_parse h s of Inr v \<Rightarrow> v | Inl e \<Rightarrow> JStr s)
      | v \<Rightarrow> v)"
  by (simp add: coerce_def Let_def split: jsval.splits sum.splits)

text \<open>
  C4 (as amended). Let the first pass return, and let it find the reference \<open>m\<close> with the
  name \<open>variableName\<close> after \<^verbatim>\<open><variable.\<close>, trimmed (by \<open>variable_match_shape\<close>
  the match is \<^verbatim>\<open><variable.\<close>, a name and \<^verbatim>\<open>>\<close>). Then the lookup of the name does
  not throw. It finds the first entry whose name, with all white space removed, is
  \<open>variableName\<close>, the entries before it having other such names. For a found variable
  the step replaces every occurrence of \<open>m\<close> in the code as it then is by the identifier
  \<^verbatim>\<open>__variable_\<close> plus the sanitized name and binds it to the coerced value, which the
  returned mapping has under it unless a later reference has the same identifier; for a
  name that is not found the step replaces every occurrence of \<open>m\<close> by the empty string.
  The code returned is the result of these steps in the order of the matches. The
  coerced value is the value itself when that is \<^verbatim>\<open>undefined\<close> or \<^verbatim>\<open>null\<close>;
  otherwise it is the value for the type \<^verbatim>\<open>string\<close>, \<^verbatim>\<open>Number(value)\<close> for
  \<^verbatim>\<open>number\<close> (the value when that throws), for \<^verbatim>\<open>boolean\<close> whether the value is
  the string \<^verbatim>\<open>true\<close> or the boolean \<^verbatim>\<open>true\<close>, and for \<^verbatim>\<open>json\<close> the parsed
  value of a string (the string itself when parsing throws) and any other value as it is.
\<close>

theorem workflow_reference:
  "(resolveWorkflowVariables h src wv ctx = Inr (src', ctx')
      \<and> matchAll variableRegExp None src = earlier @ m # later \<and> variableName = trim (slice 10 1 m)
    \<longrightarrow> (\<exists>r. find h wv variableName = Inr r)
      \<and> (\<forall>k variable. find h wv variableName = Inr (Some (k, variable))
            \<and> (\<forall>m' \<in> set later. safeVarName ''__variable_'' (trim (slice 10 1 m'))
                  \<noteq> safeVarName ''__variable_'' variableName)
          \<longrightarrow> map_of ctx' (safeVarName ''__variable_'' variableName) = Some (coerce h variable))
      \<and> src' = foldl (\<lambda>c m. replaceEvery m
                  (case find h wv (trim (slice 10 1 m)) of
                     Inr (Some foundVariable) \<Rightarrow> safeVarName ''__variable_'' (trim (slice 10 1 m))
                   | _ \<Rightarrow> []) c)
                src (matchAll variableRegExp None src))
   \<and> (strippedName h variable = Some variableName
        \<and> (\<forall>e \<in> set preceding. \<exists>n. strippedName h (snd e) = Some n \<and> n \<noteq> variableName)
       \<longrightarrow> find h (preceding @ (k, variable) # following) variableName = Inr (Some (k, variable)))
   \<and> (find h wv (trim (slice 10 1 m)) = Inr (Some (k, variable)) \<longrightarrow>
         workflowStep h wv st m =
           Inr (replaceEvery m (safeVarName ''__variable_'' (trim (slice 10 1 m))) (fst st),
                AList.update (safeVarName ''__variable_'' (trim (slice 10 1 m))) (coerce h variable) (snd st)))
   \<and> (find h wv (trim (slice 10 1 m)) = Inr None \<longrightarrow>
         workflowStep h wv st m = Inr (replaceEvery m [] (fst st), snd st))
   \<and> (get h variable ''value'' = JUndefined \<or> get h variable ''value'' = JNull \<longrightarrow>
         coerce h variable = get h variable ''value'')
   \<and> (get h variable ''value'' \<noteq> JUndefined \<and> get h variable ''value'' \<noteq> JNull \<longrightarrow>
         (get h variable ''type'' = JStr ''string'' \<longrightarrow> coerce h variable = get h variable ''value'')
       \<and> (get h variable ''type'' = JStr ''number'' \<longrightarrow>
            coerce h variable =
              (case toNumber h (get h variable ''value'') of
                 Inr n \<Rightarrow> JNum n | Inl e \<Rightarrow> get h variable ''value''))
       \<and> (get h variable ''type'' = JStr ''boolean'' \<longrightarrow>
            coerce h variable =
              JBool (get h variable ''value'' = JStr ''true'' \<or> get h variable ''value'' = JBool True))
       \<and> (get h variable ''type'' = JStr ''json'' \<longrightarrow>
            coerce h variable =
              (case get h variable ''value'' of
                 JStr s \<Rightarrow> (case JSON_parse h s of Inr v \<Rightarrow> v | Inl e \<Rightarrow> JStr s)
               | v \<Rightarrow> v)))"
proof (intro conjI impI allI)
  assume a: "resolveWorkflowVariables h src wv ctx = Inr (src', ctx')
      \<and> matchAll variableRegExp None src = earlier @ m # later \<and> variableName = trim (slice 10 1 m)"
  then have a1: "resolveWorkflowVariables h src wv ctx = Inr (src', ctx')"
    and a2: "matchAll variableRegExp None src = earlier @ m # later"
    and a3: "variableName = trim (slice 10 1 m)"
    by simp_all
  from a1 have f: "forEach (workflowStep h wv) (src, ctx) (earlier @ m # later) = Inr (src', ctx')"
    unfolding resolveWorkflowVariables_def a2 .
  note fe = forEach_workflowStep [OF f]
  from fe a3 show "\<exists>r. find h wv variableName = Inr r" by auto
  have rep: "workflowReplacement h wv = (\<lambda>m. case find h wv (trim (slice 10 1 m)) of
                     Inr (Some foundVariable) \<Rightarrow> safeVarName ''__variable_'' (trim (slice 10 1 m))
                   | _ \<Rightarrow> [])"
    by (intro ext) (simp add: workflowReplacement_def)
  from fe a2 show "src' = foldl (\<lambda>c m. replaceEvery m
                  (case find h wv (trim (slice 10 1 m)) of
                     Inr (Some foundVariable) \<Rightarrow> safeVarName ''__variable_'' (trim (slice 10 1 m))
                   | _ \<Rightarrow> []) c)
                src (matchAll variableRegExp None src)"
    by (simp add: rep)
  fix k variable
  assume b: "find h wv variableName = Inr (Some (k, variable))
            \<and> (\<forall>m' \<in> set later. safeVarName ''__variable_'' (trim (slice 10 1 m'))
                  \<noteq> safeVarName ''__variable_'' variableName)"
  have "map_of (bindAll (workflowBinding h wv) ctx (earlier @ m # later))
      (safeVarName ''__variable_'' variableName) = Some (coerce h variable)"
    using a3 b by (intro bindAll_last) (auto simp: workflowBinding_def split: sum.splits option.splits)
  with fe show "map_of ctx' (safeVarName ''__variable_'' variableName) = Some (coerce h variable)"
    by simp
next
  assume "strippedName h variable = Some variableName
        \<and> (\<forall>e \<in> set preceding. \<exists>n. strippedName h (snd e) = Some n \<and> n \<noteq> variableName)"
  then show "find h (preceding @ (k, variable) # following) variableName = Inr (Some (k, variable))"
    by (intro find_first) auto
next
  assume "find h wv (trim (slice 10 1 m)) = Inr (Some (k, variable))"
  then show "workflowStep h wv st m =
           Inr (replaceEvery m (safeVarName ''__variable_'' (trim (slice 10 1 m))) (fst st),
                AList.update (safeVarName ''__variable_'' (trim (slice 10 1 m))) (coerce h variable) (snd st))"
    by (rule workflowStep_found)
next
  assume "find h wv (trim (slice 10 1 m)) = Inr None"
  then show "workflowStep h wv st m = Inr (replaceEvery m [] (fst st), snd st)"
    by (rule workflowStep_missing)
next
  assume "get h variable ''value'' = JUndefined \<or> get h variable ''value'' = JNull"
  then show "coerce h variable = get h variable ''value''" by (rule coerce_nullish)
next
  assume "get h variable ''value'' \<noteq> JUndefined \<and> get h variable ''value'' \<noteq> JNull"
    and "get h variable ''type'' = JStr ''string''"
  then show "coerce h variable = get h variable ''value''" by (simp add: coerce_string)
next
  assume "get h variable ''value'' \<noteq> JUndefined \<and> get h variable ''value'' \<noteq> JNull"
    and "get h variable ''type'' = JStr ''number''"
  then show "coerce h variable =
              (case toNumber h (get h variable ''value'') of
                 Inr n \<Rightarrow> JNum n | Inl e \<Rightarrow> get h variable ''value'')"
    by (simp add: coerce_number)
next
  assume "get h variable ''value'' \<noteq> JUndefined \<and> get h variable ''value'' \<noteq> JNull"
    and "get h variable ''type'' = JStr ''boolean''"
  then show "coerce h variable =
              JBool (get h variable ''value'' = JStr ''true'' \<or> get h variable ''value'' = JBool True)"
    by (simp add: coerce_boolean)
next
  assume "get h variable ''value'' \<noteq> JUndefined \<and> get h variable ''value'' \<noteq> JNull"
    and "get h variable ''type'' = JStr ''json''"
  then show "coerce h variable =
              (case get h variable ''value'' of
                 JStr s \<Rightarrow> (case JSON_parse h s of Inr v \<Rightarrow> v | Inl e \<Rightarrow> JStr s)
               | v \<Rightarrow> v)"
    by (simp add: coerce_json)
qed


lemmas workflow_eval = eval_defs coerce_def workflowVariable_def

theorem workflow_reference_witness:
  "resolveWorkflowVariables (exampleHost None compiles idleVm) ''f(<variable.n>, <variable.gone>)''
      exampleVariables [] = Inr (''f(__variable_n, )'', [(''__variable_n'', JNum (Num 42))])
   \<and> matchAll variableRegExp None ''f(<variable.n>, <variable.gone>)'' = [] @ ''<variable.n>'' # [''<variable.gone>'']
   \<and> ''n'' = trim (slice 10 1 ''<variable.n>'')
   \<and> strippedName (exampleHost None compiles idleVm) (snd (hd exampleVariables)) = Some ''n''
   \<and> find (exampleHost None compiles idleVm) exampleVariables ''n'' = Inr (Some (hd exampleVariables))
   \<and> find (exampleHost None compiles idleVm) exampleVariables (trim (slice 10 1 ''<variable.gone>'')) = Inr None
   \<and> map_of [(''__variable_n'', JNum (Num 42))] (safeVarName ''__variable_'' ''n'') =
       Some (coerce (exampleHost None compiles idleVm) (snd (hd exampleVariables)))
   \<and> coerce (exampleHost None compiles idleVm) (snd (hd exampleVariables)) = JNum (Num 42)
   \<and> workflowStep (exampleHost None compiles idleVm) exampleVariables (''f(__variable_n, <variable.gone>)'', [])
        ''<variable.gone>'' = Inr (''f(__variable_n, )'', [])"
proof -
  let ?h = "exampleHost None compiles idleVm"
  let ?src = "''f(<variable.n>, <variable.gone>)''"
  let ?var = "snd (hd exampleVariables)"
  have r: "resolveWorkflowVariables ?h ?src exampleVariables [] =
      Inr (''f(__variable_n, )'', [(''__variable_n'', JNum (Num 42))])"
    by (simp add: workflow_eval exampleVariables_def)
  have ms: "matchAll variableRegExp None ?src = [] @ ''<variable.n>'' # [''<variable.gone>'']"
    by (simp add: regExp_defs charClass_defs)
  have n: "''n'' = trim (slice 10 1 ''<variable.n>'')"
    by (simp add: trim_def slice_def charClass_defs)
  have sn: "strippedName ?h ?var = Some ''n''"
    by (simp add: strippedName_def workflow_eval exampleVariables_def)
  have ev: "exampleVariables = [] @ (''v1'', ?var) # []"
    by (simp add: exampleVariables_def)
  have fnd: "find ?h ([] @ (''v1'', ?var) # []) ''n'' = Inr (Some (''v1'', ?var))"
    using workflow_reference [where h = ?h and variable = ?var and variableName = "''n''"
        and preceding = "[]" and k = "''v1''" and following = "[]"] sn
    by simp
  then have fnd': "find ?h exampleVariables ''n'' = Inr (Some (hd exampleVariables))"
    by (simp add: exampleVariables_def)
  have gone: "find ?h exampleVariables (trim (slice 10 1 ''<variable.gone>'')) = Inr None"
    by (simp add: workflow_eval exampleVariables_def)
  have l: "\<forall>m' \<in> set [''<variable.gone>'']. safeVarName ''__variable_'' (trim (slice 10 1 m'))
      \<noteq> safeVarName ''__variable_'' ''n''"
    by (simp add: safeVarName_def sanitize_def trim_def slice_def regExp_defs charClass_defs)
  have fnd2: "find ?h exampleVariables ''n'' = Inr (Some (''v1'', ?var))"
    using fnd' by (simp add: exampleVariables_def)
  have b: "map_of [(''__variable_n'', JNum (Num 42))] (safeVarName ''__variable_'' ''n'') =
       Some (coerce ?h ?var)"
    using workflow_reference [where h = ?h and src = ?src and wv = exampleVariables and ctx = "[]"
        and src' = "''f(__variable_n, )''" and ctx' = "[(''__variable_n'', JNum (Num 42))]"
        and earlier = "[]" and m = "''<variable.n>''" and later = "[''<variable.gone>'']"
        and variableName = "''n''"] r ms n fnd2 l
    by blast
  have ty: "get ?h ?var ''value'' \<noteq> JUndefined \<and> get ?h ?var ''value'' \<noteq> JNull"
    "get ?h ?var ''type'' = JStr ''number''"
    "toNumber ?h (get ?h ?var ''value'') = Inr (Num 42)"
    by (simp_all add: exampleVariables_def workflowVariable_def exampleHost_def)
  have c: "coerce ?h ?var = JNum (Num 42)"
    using workflow_reference [where h = ?h and variable = ?var] ty
    by simp
  have st: "workflowStep ?h exampleVariables (''f(__variable_n, <variable.gone>)'', []) ''<variable.gone>''
      = Inr (replaceEvery ''<variable.gone>'' [] (fst (''f(__variable_n, <variable.gone>)'', [] :: (string \<times> jsval) list)),
             snd (''f(__variable_n, <variable.gone>)'', [] :: (string \<times> jsval) list))"
    using workflow_reference [where h = ?h and wv = exampleVariables and m = "''<variable.gone>''"
        and st = "(''f(__variable_n, <variable.gone>)'', [])"] gone
    by blast
  have st': "workflowStep ?h exampleVariables (''f(__variable_n, <variable.gone>)'', []) ''<variable.gone>''
      = Inr (''f(__variable_n, )'', [])"
    unfolding st by (simp add: replaceEvery_def regExp_defs charClass_defs)
  show ?thesis
    by (intro conjI) (rule r, rule ms, rule n, rule sn, rule fnd', rule gone, rule b, rule c, rule st')
qed

text \<open>
  C4 as stated fails. A variable of type \<^verbatim>\<open>boolean\<close> with the value \<^verbatim>\<open>null\<close>
  is bound to \<^verbatim>\<open>null\<close>, not to \<^verbatim>\<open>false\<close>; a reference with white space inside
  its name is deleted although a variable has that name; of two references with the same
  identifier the value of the later is bound for both; and where an earlier reference is
  a part of a later one, the later one is not replaced by its identifier.
\<close>

theorem workflow_reference_differs:
  "resolveWorkflowVariables (exampleHost None compiles idleVm) ''<variable.flag>''
      [(''v1'', workflowVariable ''flag'' ''boolean'' JNull)] [] =
     Inr (''__variable_flag'', [(''__variable_flag'', JNull)])
   \<and> resolveWorkflowVariables (exampleHost None compiles idleVm) ''<variable.my var>''
      [(''v1'', workflowVariable ''my var'' ''string'' (JStr ''x''))] [] = Inr ([], [])
   \<and> resolveWorkflowVariables (exampleHost None compiles idleVm) ''<variable.a-b> + <variable.a_b>''
      [(''v1'', workflowVariable ''a-b'' ''string'' (JStr ''1'')),
       (''v2'', workflowVariable ''a_b'' ''string'' (JStr ''2''))] [] =
     Inr (''__variable_a_b + __variable_a_b'', [(''__variable_a_b'', JStr ''2'')])
   \<and> matchAll variableRegExp None ''<variable.a><variable.<variable.a>'' =
       [''<variable.a>'', ''<variable.<variable.a>'']
   \<and> resolveWorkflowVariables (exampleHost None compiles idleVm) ''<variable.a><variable.<variable.a>''
      [(''v1'', workflowVariable ''a'' ''string'' (JStr ''x'')),
       (''v2'', workflowVariable ''<variable.a'' ''string'' (JStr ''y''))] [] =
     Inr (''__variable_a<variable.__variable_a'',
          [(''__variable_a'', JStr ''x''), (''__variable__variable_a'', JStr ''y'')])"
  by (simp add: workflow_eval)

subsection \<open>The shape of the matches\<close>

text \<open>
  What the three regular expressions of the resolver match: \<^verbatim>\<open><variable.\<close>, a name
  without \<^verbatim>\<open>>\<close> and \<^verbatim>\<open>>\<close>; \<^verbatim>\<open>{{\<close>, a name without \<^verbatim>\<open>}\<close> and
  \<^verbatim>\<open>}}\<close>; \<^verbatim>\<open><\<close>, a name of two or more letters, digits, underscores and dots
  and \<^verbatim>\<open>>\<close>. The name is what the source slices out of the match. A text is without
  matches exactly when \<^verbatim>\<open>test\<close> fails on it, and so a text with neither \<^verbatim>\<open><\<close>
  nor \<^verbatim>\<open>{\<close> is without references.
\<close>

lemma matchAll_rxMatch:
  "m \<in> set (matchAll r prev s) \<Longrightarrow> \<exists>prev' s' n. rxMatch r prev' s' = Some n \<and> m = take n s'"
proof (induction r prev s rule: matchAll.induct)
  case (1 r prev)
  then show ?case
    by (cases "rxMatch r prev []") (auto intro: exI [of _ prev] exI [of _ "[]"])
next
  case (2 r prev c cs)
  show ?case
  proof (cases "rxMatch r prev (c # cs)")
    case None
    with 2 show ?thesis by simp
  next
    case (Some n)
    with 2 show ?thesis by auto
  qed
qed

lemma matchAll_empty_iff: "matchAll r prev s = [] \<longleftrightarrow> \<not> test r prev s"
  by (induction r prev s rule: matchAll.induct) (auto split: option.splits)

lemma rxMatch_Star_One:
  "rxMatch [Star P, One Q] prev s = Some n \<Longrightarrow>
   \<exists>name q. take n s = name @ [q] \<and> (\<forall>c \<in> set name. P c) \<and> Q q"
proof (induction s arbitrary: prev n)
  case Nil
  then show ?case by simp
next
  case (Cons c cs)
  show ?case
  proof (cases "P c \<and> rxMatch [Star P, One Q] (Some c) cs \<noteq> None")
    case True
    then obtain k where k: "rxMatch [Star P, One Q] (Some c) cs = Some k" by auto
    with True Cons.prems have n: "n = Suc k" by simp
    from Cons.IH [OF k] obtain name q where "take k cs = name @ [q]" "\<forall>c \<in> set name. P c" "Q q"
      by blast
    with True n show ?thesis
      by (intro exI [of _ "c # name"] exI [of _ q]) simp
  next
    case False
    with Cons.prems have "rxMatch [One Q] prev (c # cs) = Some n"
      by (auto split: if_splits option.splits)
    then have "Q c" "n = 1" by (auto split: if_splits)
    then show ?thesis by (intro exI [of _ "[]"] exI [of _ c]) simp
  qed
qed

lemma rxMatch_Star_lit:
  "rxMatch (Star P # lit z) prev s = Some n \<Longrightarrow>
   \<exists>name. take n s = name @ z \<and> (\<forall>c \<in> set name. P c)"
proof (induction s arbitrary: prev n)
  case Nil
  then show ?case by (auto simp: rxMatch_lit split: if_splits)
next
  case (Cons c cs)
  show ?case
  proof (cases "P c \<and> rxMatch (Star P # lit z) (Some c) cs \<noteq> None")
    case True
    then obtain k where k: "rxMatch (Star P # lit z) (Some c) cs = Some k" by auto
    with True Cons.prems have n: "n = Suc k" by simp
    from Cons.IH [OF k] obtain name where "take k cs = name @ z" "\<forall>c \<in> set name. P c"
      by blast
    with True n show ?thesis
      by (intro exI [of _ "c # name"]) simp
  next
    case False
    with Cons.prems have "rxMatch (lit z) prev (c # cs) = Some n"
      by (auto split: if_splits option.splits)
    then have "prefix z (c # cs)" "n = length z" by (auto simp: rxMatch_lit split: if_splits)
    then have "take n (c # cs) = z" by (auto simp: prefix_def)
    then show ?thesis by (intro exI [of _ "[]"]) simp
  qed
qed

lemma variable_match_shape:
  assumes "m \<in> set (matchAll variableRegExp prev src)"
  shows "\<exists>name. m = ''<variable.'' @ name @ ''>'' \<and> name \<noteq> [] \<and> CHR ''>'' \<notin> set name
           \<and> slice 10 1 m = name"
proof -
  let ?P = "\<lambda>c. c \<noteq> CHR ''>''" and ?Q = "\<lambda>c. c = CHR ''>''"
  from matchAll_rxMatch [OF assms] obtain prev' s n
    where n: "rxMatch variableRegExp prev' s = Some n" and m: "m = take n s" by blast
  from n have p: "prefix ''<variable.'' s"
    unfolding variableRegExp_def by (auto simp: rxMatch_lit_append split: if_splits)
  then obtain t where s: "s = ''<variable.'' @ t" by (auto simp: prefix_def)
  from n have "map_option (\<lambda>k. length ''<variable.'' + k) (rxMatch [Plus ?P, One ?Q] (Some CHR ''.'') t) = Some n"
    unfolding variableRegExp_def s by (simp add: rxMatch_lit_append)
  then obtain k where k': "rxMatch [Plus ?P, One ?Q] (Some CHR ''.'') t = Some k"
    and nk: "n = length ''<variable.'' + k" by auto
  then obtain c cs j where t: "t = c # cs" and c: "?P c"
    and j: "rxMatch [Star ?P, One ?Q] (Some c) cs = Some j" and kj: "k = Suc j"
    by (cases t) (auto split: if_splits)
  from rxMatch_Star_One [OF j] obtain name q
    where tk: "take j cs = name @ [q]" and all: "\<forall>c \<in> set name. ?P c" and q: "?Q q" by blast
  have "m = ''<variable.'' @ (c # name) @ ''>''"
    using m s t nk kj tk q by simp
  moreover have "CHR ''>'' \<notin> set (c # name)" using c all by auto
  ultimately show ?thesis
    by (intro exI [of _ "c # name"]) (simp add: slice_def)
qed

lemma envVar_match_shape:
  assumes "m \<in> set (matchAll envVarRegExp prev src)"
  shows "\<exists>name. m = ''{{'' @ name @ ''}}'' \<and> name \<noteq> [] \<and> CHR ''}'' \<notin> set name
           \<and> slice 2 2 m = name"
proof -
  let ?P = "\<lambda>c. c \<noteq> CHR ''}''"
  from matchAll_rxMatch [OF assms] obtain prev' s n
    where n: "rxMatch envVarRegExp prev' s = Some n" and m: "m = take n s" by blast
  have re: "envVarRegExp = lit ''{{'' @ (Plus ?P # lit ''}}'')"
    by (simp add: envVarRegExp_def)
  from n have p: "prefix ''{{'' s"
    unfolding re by (auto simp: rxMatch_lit_append split: if_splits)
  then obtain t where s: "s = ''{{'' @ t" by (auto simp: prefix_def)
  from n have "map_option (\<lambda>k. 2 + k) (rxMatch (Plus ?P # lit ''}}'') (Some CHR ''{'') t) = Some n"
    unfolding re s by (simp add: rxMatch_lit_append)
  then obtain k where k': "rxMatch (Plus ?P # lit ''}}'') (Some CHR ''{'') t = Some k"
    and nk: "n = 2 + k" by auto
  then obtain c cs j where t: "t = c # cs" and c: "?P c"
    and j: "rxMatch (Star ?P # lit ''}}'') (Some c) cs = Some j" and kj: "k = Suc j"
    by (cases t) (auto split: if_splits)
  from rxMatch_Star_lit [OF j] obtain name
    where tk: "take j cs = name @ ''}}''" and all: "\<forall>c \<in> set name. ?P c" by blast
  have "m = ''{{'' @ (c # name) @ ''}}''"
    using m s t nk kj tk by simp
  moreover have "CHR ''}'' \<notin> set (c # name)" using c all by auto
  ultimately show ?thesis
    by (intro exI [of _ "c # name"]) (simp add: slice_def)
qed

lemma rxMatch_Star_One_One:
  "rxMatch [Star P, One Q, One R] prev s = Some n \<Longrightarrow>
   \<exists>name q r. take n s = name @ [q, r] \<and> (\<forall>c \<in> set name. P c) \<and> Q q \<and> R r"
proof (induction s arbitrary: prev n)
  case Nil
  then show ?case by simp
next
  case (Cons c cs)
  show ?case
  proof (cases "P c \<and> rxMatch [Star P, One Q, One R] (Some c) cs \<noteq> None")
    case True
    then obtain k where k: "rxMatch [Star P, One Q, One R] (Some c) cs = Some k" by auto
    with True Cons.prems have n: "n = Suc k" by simp
    from Cons.IH [OF k] obtain name q r
      where "take k cs = name @ [q, r]" "\<forall>c \<in> set name. P c" "Q q" "R r"
      by blast
    with True n show ?thesis
      by (intro exI [of _ "c # name"] exI [of _ q] exI [of _ r]) simp
  next
    case False
    with Cons.prems have *: "rxMatch [One Q, One R] prev (c # cs) = Some n"
      by (auto split: if_splits option.splits)
    then obtain r cs' where "Q c" "cs = r # cs'" "R r" "n = 2"
      by (cases cs) (auto split: if_splits)
    then show ?thesis by (intro exI [of _ "[]"] exI [of _ c] exI [of _ r]) simp
  qed
qed

lemma tag_match_shape:
  assumes "m \<in> set (matchAll tagRegExp prev src)"
  shows "\<exists>name. m = ''<'' @ name @ ''>'' \<and> length name \<ge> 2 \<and> (\<forall>c \<in> set name. isTagChar c)
           \<and> trim (slice 1 1 m) = name"
proof -
  from matchAll_rxMatch [OF assms] obtain prev' s n
    where n: "rxMatch tagRegExp prev' s = Some n" and m: "m = take n s" by blast
  from n obtain c0 cs j where s: "s = CHR ''<'' # c0 # cs" and c0: "isTagStart c0"
    and j: "rxMatch [Star isTagChar, One isWordChar, One (\<lambda>c. c = CHR ''>'')] (Some c0) cs = Some j"
    and nj: "n = Suc (Suc j)"
    unfolding tagRegExp_def
    by (cases s; cases "tl s") (auto split: if_splits)
  from rxMatch_Star_One_One [OF j] obtain body w g
    where tk: "take j cs = body @ [w, g]" and all: "\<forall>c \<in> set body. isTagChar c"
      and w: "isWordChar w" and g: "g = CHR ''>''" by blast
  let ?name = "c0 # body @ [w]"
  have mm: "m = ''<'' @ ?name @ ''>''"
    using m s nj tk g by simp
  have tc: "\<forall>c \<in> set ?name. isTagChar c"
    using c0 all w by (auto simp: isTagChar_def isTagStart_def isWordChar_def)
  have ns: "\<not> isSpace c" if "isTagChar c" for c
    using that by (auto simp: charClass_defs)
  have "\<not> isSpace c0" "\<not> isSpace w" using tc ns by auto
  then have "trim ?name = ?name"
    by (simp add: trim_def)
  with mm tc show ?thesis
    by (intro exI [of _ ?name]) (simp add: slice_def)
qed

lemma referenceFree_plain:
  assumes "CHR ''<'' \<notin> set src" and "CHR ''{'' \<notin> set src"
  shows "referenceFree src"
proof -
  have none: "x \<notin> set s \<Longrightarrow> matchAll (One (\<lambda>c. c = x) # r) prev s = []" for x r prev s
    by (induction s arbitrary: prev) auto
  show ?thesis
    using assms none [of "CHR ''<''" src] none [of "CHR ''{''" src]
    by (simp add: referenceFree_def variableRegExp_def envVarRegExp_def tagRegExp_def lit_def)
qed

end
